theory Spec2Isabelle
  imports Main
begin

section \<open>JavaScript values\<close>

text \<open>
  The values the storage layers and the conflict resolver work on are the values of
  \<^verbatim>\<open>JSON.parse\<close>, together with \<^verbatim>\<open>undefined\<close> (what reading a missing property gives) and
  the built-in functions that a plain object inherits from \<^verbatim>\<open>Object.prototype\<close>
  (\<open>JFunction name\<close> is the member of that name), which reading a property through the
  prototype chain can give.

  A number \<open>JNum n\<close> is the double whose value is the integer \<open>n\<close>; fractions, \<^verbatim>\<open>NaN\<close>, the
  infinities and the negative zero are outside the model (\<^verbatim>\<open>NaN\<close> as the result of a
  conversion is \<open>None\<close>). Arithmetic rounds as doubles do, see \<open>round_to_double\<close>.

  A string is modelled by the bytes of its UTF-8 encoding (a surrogate pair is one
  character, of four bytes). An unpaired surrogate, which UTF-8 proper does not encode,
  is the three bytes that the encoding scheme gives its code unit: \<^verbatim>\<open>ED\<close>, then a byte
  from \<^verbatim>\<open>A0\<close> to \<^verbatim>\<open>BF\<close>, then a continuation byte.

  An object is a plain object: its prototype is \<^verbatim>\<open>Object.prototype\<close>, and it is the list
  of its own properties in property order. A function is the value of an own property
  only where the merge of two states has copied an inherited member, under the name of
  that member: \<open>JFunction name\<close> under the key \<open>name\<close>.
\<close>

datatype js =
    JUndefined
  | JNull
  | JBool bool
  | JNum int
  | JStr string
  | JArr "js list"
  | JObj "(string \<times> js) list"
  | JFunction string

text \<open>
  What a \<^verbatim>\<open>throw\<close> carries: the built-in errors the code can meet, and
  \<^verbatim>\<open>new Error(message)\<close>. \<open>Outside_model\<close> is not an error of the program. It marks a
  computation that the values above cannot follow: one that reads the prototype of an
  object as a value or replaces it (both through the inherited accessor \<^verbatim>\<open>__proto__\<close>),
  or that calls a built-in function held as a property value. The program goes on
  there; the model makes no statement about what it returns.
\<close>

datatype error = SyntaxError | TypeError | URIError | Error string | Outside_model

subsection \<open>Digits\<close>

definition is_digit :: "char \<Rightarrow> bool" where
  "is_digit c = (48 \<le> (of_char c :: int) \<and> (of_char c :: int) \<le> 57)"

definition digits_value :: "string \<Rightarrow> int" where
  "digits_value ds = foldl (\<lambda>acc c. 10 * acc + (of_char c - 48)) 0 ds"

subsection \<open>Own and inherited properties\<close>

text \<open>\<^verbatim>\<open>Object.keys(o)\<close>.\<close>

definition Object_keys :: "(string \<times> js) list \<Rightarrow> string list" where
  "Object_keys kvs = map fst kvs"

text \<open>The own property \<open>key\<close> of an object: \<^verbatim>\<open>undefined\<close> when there is none.\<close>

fun obj_get :: "(string \<times> js) list \<Rightarrow> string \<Rightarrow> js" where
  "obj_get [] key = JUndefined"
| "obj_get ((k, v) # kvs) key = (if k = key then v else obj_get kvs key)"

text \<open>
  The property order of an object has the keys that are array indices first, in
  ascending order, then the other keys in the order of their creation. An array index
  is the decimal text, without a leading zero, of an integer from 0 to \<open>2^32 - 2\<close>.
\<close>

definition is_array_index :: "string \<Rightarrow> bool" where
  "is_array_index k =
     (k \<noteq> [] \<and> list_all is_digit k \<and> (length k = 1 \<or> hd k \<noteq> CHR ''0'')
      \<and> digits_value k < 4294967295)"

fun replace_value :: "string \<Rightarrow> js \<Rightarrow> (string \<times> js) list \<Rightarrow> (string \<times> js) list" where
  "replace_value key val [] = []"
| "replace_value key val ((k, v) # kvs) =
     (if k = key then (k, val) # kvs else (k, v) # replace_value key val kvs)"

fun insert_index :: "string \<Rightarrow> js \<Rightarrow> (string \<times> js) list \<Rightarrow> (string \<times> js) list" where
  "insert_index key val [] = [(key, val)]"
| "insert_index key val ((k, v) # kvs) =
     (if is_array_index k \<and> digits_value k < digits_value key
      then (k, v) # insert_index key val kvs
      else (key, val) # (k, v) # kvs)"

text \<open>\<^verbatim>\<open>o[key] = value\<close> where the assignment makes or updates an own property: an
  existing property keeps its place; a new one goes to its place among the array
  indices, or last.\<close>

definition obj_set :: "string \<Rightarrow> js \<Rightarrow> (string \<times> js) list \<Rightarrow> (string \<times> js) list" where
  "obj_set key val kvs =
     (if key \<in> set (Object_keys kvs) then replace_value key val kvs
      else if is_array_index key then insert_index key val kvs
      else kvs @ [(key, val)])"

text \<open>The function-valued members of \<^verbatim>\<open>Object.prototype\<close>; its one other member is the
  accessor \<^verbatim>\<open>__proto__\<close>.\<close>

definition Object_prototype_methods :: "string list" where
  "Object_prototype_methods =
     [''constructor'', ''hasOwnProperty'', ''isPrototypeOf'', ''propertyIsEnumerable'',
      ''toLocaleString'', ''toString'', ''valueOf'', ''__defineGetter__'', ''__defineSetter__'',
      ''__lookupGetter__'', ''__lookupSetter__'']"

text \<open>
  \<^verbatim>\<open>o[key]\<close> on a plain object: the own property if there is one, else the member of
  \<^verbatim>\<open>Object.prototype\<close> of that name, else \<^verbatim>\<open>undefined\<close>. \<open>js_read\<close> is that value for
  every key but an inherited \<^verbatim>\<open>__proto__\<close>, whose value is the prototype itself.
\<close>

definition js_read :: "(string \<times> js) list \<Rightarrow> string \<Rightarrow> js" where
  "js_read kvs key =
     (if key \<in> set (Object_keys kvs) then obj_get kvs key
      else if key \<in> set Object_prototype_methods then JFunction key
      else JUndefined)"

definition js_get :: "(string \<times> js) list \<Rightarrow> string \<Rightarrow> error + js" where
  "js_get kvs key =
     (if key = ''__proto__'' \<and> key \<notin> set (Object_keys kvs) then Inl Outside_model
      else Inr (js_read kvs key))"

text \<open>The values that the setter of \<^verbatim>\<open>__proto__\<close> takes as a new prototype: an object
  (an array and a function are objects) or \<^verbatim>\<open>null\<close>.\<close>

fun is_object_or_null :: "js \<Rightarrow> bool" where
  "is_object_or_null JNull = True"
| "is_object_or_null (JArr xs) = True"
| "is_object_or_null (JObj kvs) = True"
| "is_object_or_null (JFunction f) = True"
| "is_object_or_null v = False"

text \<open>
  \<^verbatim>\<open>o[key] = value\<close> on a plain object, for any key. The function-valued members of
  \<^verbatim>\<open>Object.prototype\<close> are writable data properties, so assigning to their names makes
  an own property. Only \<^verbatim>\<open>__proto__\<close>, on an object without an own property of that
  name, goes to the inherited setter, which does nothing for a primitive value and
  replaces the prototype otherwise.
\<close>

definition js_assign :: "string \<Rightarrow> js \<Rightarrow> (string \<times> js) list \<Rightarrow> error + (string \<times> js) list" where
  "js_assign key val kvs =
     (if key = ''__proto__'' \<and> key \<notin> set (Object_keys kvs)
      then (if is_object_or_null val then Inl Outside_model else Inr kvs)
      else Inr (obj_set key val kvs))"

text \<open>
  The five fields that the storage code reads from a parsed value by name
  (\<^verbatim>\<open>parsed._version\<close>, and the destructuring in \<open>decrypt\<close>); no built-in prototype has
  a member of one of these names.
\<close>

definition field_names :: "string list" where
  "field_names = [''_version'', ''salt'', ''iv'', ''ciphertext'', ''algorithm'']"

text \<open>\<^verbatim>\<open>value.field\<close> for any value: reading a property of \<^verbatim>\<open>null\<close> or \<^verbatim>\<open>undefined\<close>
  throws a TypeError; a primitive, an array or a function has no property of one of the
  five names, and the code reads no other name from such a value.\<close>

fun get_property :: "js \<Rightarrow> string \<Rightarrow> error + js" where
  "get_property JUndefined key = Inl TypeError"
| "get_property JNull key = Inl TypeError"
| "get_property (JObj kvs) key = js_get kvs key"
| "get_property v key = (if key \<in> set field_names then Inr JUndefined else Inl Outside_model)"

text \<open>\<^verbatim>\<open>value._version = x\<close> in strict mode (the sources are ES modules): a TypeError on
  \<^verbatim>\<open>null\<close>, \<^verbatim>\<open>undefined\<close> and on a primitive; on an object, the assignment above. On an
  array or a function the assignment creates a named property, which \<^verbatim>\<open>JSON.stringify\<close>
  does not print: the value as JSON sees it is unchanged.\<close>

fun set_property :: "js \<Rightarrow> string \<Rightarrow> js \<Rightarrow> error + js" where
  "set_property (JObj kvs) key x =
     (case js_assign key x kvs of Inl e \<Rightarrow> Inl e | Inr kvs' \<Rightarrow> Inr (JObj kvs'))"
| "set_property (JArr xs) key x = Inr (JArr xs)"
| "set_property (JFunction f) key x = Inr (JFunction f)"
| "set_property v key x = Inl TypeError"

text \<open>ToBoolean, as \<^verbatim>\<open>||\<close>, \<^verbatim>\<open>!\<close> and \<^verbatim>\<open>? :\<close> apply it.\<close>

fun truthy :: "js \<Rightarrow> bool" where
  "truthy JUndefined = False"
| "truthy JNull = False"
| "truthy (JBool b) = b"
| "truthy (JNum n) = (n \<noteq> 0)"
| "truthy (JStr s) = (s \<noteq> [])"
| "truthy (JArr xs) = True"
| "truthy (JObj kvs) = True"
| "truthy (JFunction f) = True"

subsection \<open>Numbers\<close>

text \<open>The number of bits of a positive integer.\<close>

function bit_length :: "int \<Rightarrow> nat" where
  "bit_length a = (if a \<le> 0 then 0 else Suc (bit_length (a div 2)))"
  by pat_completeness auto
termination
  by (relation "measure nat") auto

declare bit_length.simps [simp del]

text \<open>
  The double nearest to an integer, a tie going to the even significand: every integer
  up to \<open>2^53\<close> in absolute value is a double; beyond, a double has 53 significant bits.
  The overflow to infinity, past \<open>2^1024\<close>, is outside the model.
\<close>

definition round_to_double :: "int \<Rightarrow> int" where
  "round_to_double n =
     (let a = \<bar>n\<bar> in
      if a \<le> 9007199254740992 then n
      else (let q = 2 ^ (bit_length a - 53);
                m = a div q;
                r = a mod q;
                m' = (if 2 * r > q \<or> (2 * r = q \<and> odd m) then m + 1 else m)
            in sgn n * (m' * q)))"

text \<open>\<^verbatim>\<open>x + 1\<close> and \<^verbatim>\<open>x++\<close> on a number: the sum, rounded.\<close>

definition plus_one :: "int \<Rightarrow> int" where
  "plus_one n = round_to_double (n + 1)"

subsection \<open>Printing numbers and lists\<close>

definition digit_char :: "int \<Rightarrow> char" where
  "digit_char d = char_of (48 + d)"

function dec_digits :: "int \<Rightarrow> string" where
  "dec_digits n = (if n < 10 then [digit_char n] else dec_digits (n div 10) @ [digit_char (n mod 10)])"
  by pat_completeness auto
termination
  by (relation "measure nat") auto

declare dec_digits.simps [simp del]

text \<open>
  The digits that Number::toString prints for a double \<open>x\<close> beyond \<open>2^53\<close>: those of the
  integer with the fewest significant digits that rounds to \<open>x\<close>, and among these of the
  one nearest to \<open>x\<close> (the even one on a tie). \<open>shortest_from k x\<close> tries \<open>k\<close> significant
  digits, then more.
\<close>

function shortest_from :: "nat \<Rightarrow> int \<Rightarrow> int" where
  "shortest_from k x =
     (let nd = length (dec_digits x) in
      if k \<ge> nd then x
      else (let scale = 10 ^ (nd - k);
                lo = (x div scale) * scale;
                hi = lo + scale;
                lo_ok = (round_to_double lo = x);
                hi_ok = (round_to_double hi = x)
            in if lo_ok \<and> hi_ok then
                 (if x - lo < hi - x then lo
                  else if hi - x < x - lo then hi
                  else if even (x div scale) then lo else hi)
               else if lo_ok then lo
               else if hi_ok then hi
               else shortest_from (Suc k) x))"
  by pat_completeness auto
termination
  by (relation "measure (\<lambda>(k, x). length (dec_digits x) - k)") auto

declare shortest_from.simps [simp del]

definition strip_zeros :: "string \<Rightarrow> string" where
  "strip_zeros ds = rev (dropWhile (\<lambda>c. c = CHR ''0'') (rev ds))"

text \<open>Number::toString of an integer-valued double: below \<open>10^21\<close> the digits are
  printed in full, from there on in exponent notation.\<close>

definition Number_toString :: "int \<Rightarrow> string" where
  "Number_toString n =
     (let x = \<bar>n\<bar>;
          c = (if x \<le> 9007199254740992 then x else shortest_from 1 x);
          ds = dec_digits c;
          body = (if c < 1000000000000000000000 then ds
                  else (let s = strip_zeros ds in
                        (if length s = 1 then s else hd s # CHR ''.'' # tl s)
                        @ ''e+'' @ dec_digits (int (length ds) - 1)))
      in if n < 0 then CHR ''-'' # body else body)"

fun join :: "string \<Rightarrow> string list \<Rightarrow> string" where
  "join sep [] = []"
| "join sep [x] = x"
| "join sep (x # y # ys) = x @ sep @ join sep (y # ys)"

subsection \<open>Strings\<close>

text \<open>The \<^verbatim>\<open>length\<close> of a string, in UTF-16 code units: one for each character, two
  for a character that UTF-8 encodes in four bytes.\<close>

definition utf16_length :: "string \<Rightarrow> int" where
  "utf16_length s =
     int (length (filter (\<lambda>c. (of_char c :: int) < 128 \<or> 192 \<le> (of_char c :: int)) s))
     + int (length (filter (\<lambda>c. 240 \<le> (of_char c :: int)) s))"

text \<open>The three bytes of an unpaired surrogate, and whether a string has one.\<close>

definition surrogate_bytes :: "char \<Rightarrow> char \<Rightarrow> char \<Rightarrow> bool" where
  "surrogate_bytes c d e =
     (c = CHR 0xED \<and> 160 \<le> (of_char d :: int) \<and> (of_char d :: int) \<le> 191
      \<and> 128 \<le> (of_char e :: int) \<and> (of_char e :: int) \<le> 191)"

fun has_lone_surrogate :: "string \<Rightarrow> bool" where
  "has_lone_surrogate (c # d # e # cs) =
     (surrogate_bytes c d e \<or> has_lone_surrogate (d # e # cs))"
| "has_lone_surrogate cs = False"

subsection \<open>JSON.stringify\<close>

definition hex_char :: "int \<Rightarrow> char" where
  "hex_char d = (if d < 10 then char_of (48 + d) else char_of (87 + d))"

definition escape_char :: "char \<Rightarrow> string" where
  "escape_char c =
     (if c = CHR 0x22 then [CHR 0x5C, CHR 0x22]
      else if c = CHR 0x5C then [CHR 0x5C, CHR 0x5C]
      else if c = CHR 0x08 then [CHR 0x5C, CHR ''b'']
      else if c = CHR 0x09 then [CHR 0x5C, CHR ''t'']
      else if c = CHR 0x0A then [CHR 0x5C, CHR ''n'']
      else if c = CHR 0x0C then [CHR 0x5C, CHR ''f'']
      else if c = CHR 0x0D then [CHR 0x5C, CHR ''r'']
      else if (of_char c :: int) < 32
        then [CHR 0x5C, CHR ''u'', CHR ''0'', CHR ''0'',
              hex_char (of_char c div 16), hex_char (of_char c mod 16)]
      else [c])"

text \<open>The escape \<^verbatim>\<open>\udXXX\<close> of the unpaired surrogate whose second and third bytes
  are \<open>d\<close> and \<open>e\<close>: its code unit is \<open>0xD000 + 64 * (d - 0x80) + (e - 0x80)\<close>.\<close>

definition escape_surrogate :: "char \<Rightarrow> char \<Rightarrow> string" where
  "escape_surrogate d e =
     (let u = 64 * ((of_char d :: int) - 128) + ((of_char e :: int) - 128) in
      [CHR 0x5C, CHR ''u'', CHR ''d'', hex_char (u div 256), hex_char (u div 16 mod 16),
       hex_char (u mod 16)])"

fun escape_string :: "string \<Rightarrow> string" where
  "escape_string (c # d # e # cs) =
     (if surrogate_bytes c d e then escape_surrogate d e @ escape_string cs
      else escape_char c @ escape_string (d # e # cs))"
| "escape_string (c # cs) = escape_char c @ escape_string cs"
| "escape_string [] = []"

definition quote :: "string \<Rightarrow> string" where
  "quote s = CHR 0x22 # escape_string s @ [CHR 0x22]"

text \<open>\<^verbatim>\<open>JSON.stringify(value)\<close>: \<open>None\<close> is the result \<^verbatim>\<open>undefined\<close>. A property whose
  value is \<^verbatim>\<open>undefined\<close> or a function is left out of an object; in an array it prints
  as null. (A function under the name \<^verbatim>\<open>toJSON\<close> would be called; no member of
  \<^verbatim>\<open>Object.prototype\<close> has that name.)\<close>

fun JSON_stringify :: "js \<Rightarrow> string option" where
  "JSON_stringify JUndefined = None"
| "JSON_stringify (JFunction f) = None"
| "JSON_stringify JNull = Some ''null''"
| "JSON_stringify (JBool b) = Some (if b then ''true'' else ''false'')"
| "JSON_stringify (JNum n) = Some (Number_toString n)"
| "JSON_stringify (JStr s) = Some (quote s)"
| "JSON_stringify (JArr xs) =
     Some (''['' @ join '','' (map (\<lambda>x. case JSON_stringify x of None \<Rightarrow> ''null'' | Some s \<Rightarrow> s) xs) @ '']'')"
| "JSON_stringify (JObj kvs) =
     Some (''{'' @ join '',''
        (concat (map (\<lambda>kv. case JSON_stringify (snd kv) of None \<Rightarrow> []
                               | Some s \<Rightarrow> [quote (fst kv) @ '':'' @ s]) kvs)) @ ''}'')"

subsection \<open>JSON.parse\<close>

text \<open>
  \<^verbatim>\<open>JSON.parse\<close> is a parameter of the functions below, of type
  \<open>string \<Rightarrow> js option\<close> (\<open>None\<close>: it throws a SyntaxError); its values hold no function.
  For evaluating them on concrete blobs, \<open>JSON_parse\<close> is a recursive-descent parser of
  the JSON texts whose numbers are integers in plain decimal notation and whose strings
  use the two-character escapes (it rejects a fraction, an exponent and a \<^verbatim>\<open>\\u\<close>
  escape, which are outside the fragment); the fuel bounds the number of nested calls
  and the length of the text is enough of it. A number is the double nearest to its
  literal. The properties of an object come in property order, a repeated key keeping
  its place and taking its last value.
\<close>

definition is_ws :: "char \<Rightarrow> bool" where
  "is_ws c = (c = CHR 0x20 \<or> c = CHR 0x09 \<or> c = CHR 0x0A \<or> c = CHR 0x0D)"

definition skip_ws :: "string \<Rightarrow> string" where
  "skip_ws cs = dropWhile is_ws cs"

fun unescape :: "char \<Rightarrow> char option" where
  "unescape c =
     (if c = CHR 0x22 then Some (CHR 0x22)
      else if c = CHR 0x5C then Some (CHR 0x5C)
      else if c = CHR ''/'' then Some (CHR ''/'')
      else if c = CHR ''b'' then Some (CHR 0x08)
      else if c = CHR ''t'' then Some (CHR 0x09)
      else if c = CHR ''n'' then Some (CHR 0x0A)
      else if c = CHR ''f'' then Some (CHR 0x0C)
      else if c = CHR ''r'' then Some (CHR 0x0D)
      else None)"

text \<open>The characters of a string literal after its opening quote, and the rest of the
  text after its closing quote.\<close>

fun parse_string :: "string \<Rightarrow> (string \<times> string) option" where
  "parse_string [] = None"
| "parse_string [c] = (if c = CHR 0x22 then Some ([], []) else None)"
| "parse_string (c # d # cs) =
     (if c = CHR 0x22 then Some ([], d # cs)
      else if c = CHR 0x5C then
        (case unescape d of None \<Rightarrow> None
         | Some e \<Rightarrow> (case parse_string cs of None \<Rightarrow> None
                      | Some (s, rest) \<Rightarrow> Some (e # s, rest)))
      else if (of_char c :: int) < 32 then None
      else (case parse_string (d # cs) of None \<Rightarrow> None
            | Some (s, rest) \<Rightarrow> Some (c # s, rest)))"

text \<open>An integer literal: an optional minus sign, then \<^verbatim>\<open>0\<close> or digits that do not
  start with \<^verbatim>\<open>0\<close>. A fraction or an exponent is outside the fragment.\<close>

definition parse_number :: "string \<Rightarrow> (int \<times> string) option" where
  "parse_number cs =
     (let neg = (cs \<noteq> [] \<and> hd cs = CHR ''-'');
          body = (if neg then tl cs else cs);
          ds = takeWhile is_digit body;
          rest = dropWhile is_digit body
      in if ds = [] \<or> (length ds > 1 \<and> hd ds = CHR ''0'') then None
         else if rest \<noteq> [] \<and> hd rest \<in> {CHR ''.'', CHR ''e'', CHR ''E''} then None
         else Some (round_to_double (if neg then - digits_value ds else digits_value ds), rest))"

fun parse_value :: "nat \<Rightarrow> string \<Rightarrow> (js \<times> string) option"
  and parse_elements :: "nat \<Rightarrow> js list \<Rightarrow> string \<Rightarrow> (js \<times> string) option"
  and parse_members :: "nat \<Rightarrow> (string \<times> js) list \<Rightarrow> string \<Rightarrow> (js \<times> string) option"
where
  "parse_value 0 cs = None"
| "parse_value (Suc n) cs =
     (case skip_ws cs of
        [] \<Rightarrow> None
      | c # rest \<Rightarrow>
          if c = CHR ''n'' then
            (if take 3 rest = ''ull'' then Some (JNull, drop 3 rest) else None)
          else if c = CHR ''t'' then
            (if take 3 rest = ''rue'' then Some (JBool True, drop 3 rest) else None)
          else if c = CHR ''f'' then
            (if take 4 rest = ''alse'' then Some (JBool False, drop 4 rest) else None)
          else if c = CHR 0x22 then
            (case parse_string rest of None \<Rightarrow> None
             | Some (s, rest') \<Rightarrow> Some (JStr s, rest'))
          else if c = CHR ''['' then
            (case skip_ws rest of
               [] \<Rightarrow> None
             | d # rest' \<Rightarrow> if d = CHR '']'' then Some (JArr [], rest')
                            else parse_elements n [] (d # rest'))
          else if c = CHR ''{'' then
            (case skip_ws rest of
               [] \<Rightarrow> None
             | d # rest' \<Rightarrow> if d = CHR ''}'' then Some (JObj [], rest')
                            else parse_members n [] (d # rest'))
          else (case parse_number (c # rest) of None \<Rightarrow> None
                | Some (i, rest') \<Rightarrow> Some (JNum i, rest')))"
| "parse_elements 0 acc cs = None"
| "parse_elements (Suc n) acc cs =
     (case parse_value n cs of
        None \<Rightarrow> None
      | Some (v, rest) \<Rightarrow>
          (case skip_ws rest of
             [] \<Rightarrow> None
           | d # rest' \<Rightarrow>
               if d = CHR '','' then parse_elements n (acc @ [v]) rest'
               else if d = CHR '']'' then Some (JArr (acc @ [v]), rest')
               else None))"
| "parse_members 0 acc cs = None"
| "parse_members (Suc n) acc cs =
     (case skip_ws cs of
        [] \<Rightarrow> None
      | q # rest \<Rightarrow>
          if q \<noteq> CHR 0x22 then None
          else (case parse_string rest of
                  None \<Rightarrow> None
                | Some (k, rest1) \<Rightarrow>
                    (case skip_ws rest1 of
                       [] \<Rightarrow> None
                     | colon # rest2 \<Rightarrow>
                         if colon \<noteq> CHR '':'' then None
                         else (case parse_value n rest2 of
                                 None \<Rightarrow> None
                               | Some (v, rest3) \<Rightarrow>
                                   (case skip_ws rest3 of
                                      [] \<Rightarrow> None
                                    | d # rest4 \<Rightarrow>
                                        if d = CHR '','' then parse_members n (obj_set k v acc) rest4
                                        else if d = CHR ''}'' then Some (JObj (obj_set k v acc), rest4)
                                        else None)))))"

definition JSON_parse :: "string \<Rightarrow> js option" where
  "JSON_parse text =
     (case parse_value (Suc (length text)) text of
        None \<Rightarrow> None
      | Some (v, rest) \<Rightarrow> if skip_ws rest = [] then Some v else None)"

subsection \<open>Conversions to string and to number\<close>

fun first_error :: "(error + 'a) list \<Rightarrow> error + 'a list" where
  "first_error [] = Inr []"
| "first_error (Inl e # rs) = Inl e"
| "first_error (Inr x # rs) = (case first_error rs of Inl e \<Rightarrow> Inl e | Inr xs \<Rightarrow> Inr (x # xs))"

text \<open>The text of a built-in function, as V8 prints it; the function \<^verbatim>\<open>constructor\<close>
  of \<^verbatim>\<open>Object.prototype\<close> is \<^verbatim>\<open>Object\<close>.\<close>

definition function_text :: "string \<Rightarrow> string" where
  "function_text f =
     ''function '' @ (if f = ''constructor'' then ''Object'' else f) @ ''() { [native code] }''"

fun function_name :: "js \<Rightarrow> string option" where
  "function_name (JFunction f) = Some f"
| "function_name v = None"

text \<open>
  The conversion of a plain object to a primitive calls its \<^verbatim>\<open>valueOf\<close> and its
  \<^verbatim>\<open>toString\<close>, skipping a property that is not a function. The inherited \<^verbatim>\<open>valueOf\<close>
  returns the object itself, which is no primitive, and the inherited \<^verbatim>\<open>toString\<close>
  returns \<^verbatim>\<open>[object Object]\<close>: that is the result unless an own property \<^verbatim>\<open>toString\<close>
  hides the function, where the conversion throws a TypeError. An own property that
  holds another built-in function under one of the two names would be called.
\<close>

definition object_toString :: "(string \<times> js) list \<Rightarrow> error + string" where
  "object_toString kvs =
     (if (case function_name (js_read kvs ''valueOf'') of Some f \<Rightarrow> f \<noteq> ''valueOf'' | None \<Rightarrow> False)
         \<or> (case function_name (js_read kvs ''toString'') of Some f \<Rightarrow> f \<noteq> ''toString'' | None \<Rightarrow> False)
      then Inl Outside_model
      else if js_read kvs ''toString'' = JFunction ''toString'' then Inr ''[object Object]''
      else Inl TypeError)"

text \<open>ToString. An array prints through \<^verbatim>\<open>join\<close>, where \<^verbatim>\<open>null\<close> and \<^verbatim>\<open>undefined\<close>
  elements print as the empty string.\<close>

fun js_toString :: "js \<Rightarrow> error + string" where
  "js_toString JUndefined = Inr ''undefined''"
| "js_toString JNull = Inr ''null''"
| "js_toString (JBool b) = Inr (if b then ''true'' else ''false'')"
| "js_toString (JNum n) = Inr (Number_toString n)"
| "js_toString (JStr s) = Inr s"
| "js_toString (JArr xs) =
     (case first_error (map (\<lambda>x. if x = JUndefined \<or> x = JNull then Inr [] else js_toString x) xs) of
        Inl e \<Rightarrow> Inl e
      | Inr ss \<Rightarrow> Inr (join '','' ss))"
| "js_toString (JObj kvs) = object_toString kvs"
| "js_toString (JFunction f) = Inr (function_text f)"

text \<open>ToNumber; \<open>None\<close> is \<^verbatim>\<open>NaN\<close>. The conversion of a string to a number is the
  parameter \<open>str2num\<close>.\<close>

fun js_toNumber :: "(string \<Rightarrow> int option) \<Rightarrow> js \<Rightarrow> error + int option" where
  "js_toNumber str2num JUndefined = Inr None"
| "js_toNumber str2num JNull = Inr (Some 0)"
| "js_toNumber str2num (JBool b) = Inr (Some (if b then 1 else 0))"
| "js_toNumber str2num (JNum n) = Inr (Some n)"
| "js_toNumber str2num (JStr s) = Inr (str2num s)"
| "js_toNumber str2num v =
     (case js_toString v of Inl e \<Rightarrow> Inl e | Inr s \<Rightarrow> Inr (str2num s))"

text \<open>For evaluation: the conversion of the strings that are decimal integer literals,
  with blanks around them; a blank string converts to 0. The function gives \<^verbatim>\<open>NaN\<close> for
  every other string, which is what JavaScript gives except for the literals outside
  the fragment (fractions, exponents, hexadecimal, \<^verbatim>\<open>Infinity\<close>).\<close>

definition StringToNumber :: "string \<Rightarrow> int option" where
  "StringToNumber s =
     (let t = rev (skip_ws (rev (skip_ws s))) in
      if t = [] then Some 0
      else (let neg = (hd t = CHR ''-''); body = (if neg \<or> hd t = CHR ''+'' then tl t else t) in
            if body = [] \<or> \<not> list_all is_digit body then None
            else Some (round_to_double (if neg then - digits_value body else digits_value body))))"

section \<open>Storage adapters\<close>

text \<open>
  What \<^verbatim>\<open>getItem\<close> of a \<^verbatim>\<open>StateStorage\<close> returns: \<^verbatim>\<open>null\<close>, \<^verbatim>\<open>undefined\<close>, a string,
  or a Promise (an asynchronous storage). An adapter is a record of its three functions
  over the state \<open>'s\<close> of the backing store; a function that throws returns \<open>Inl\<close>, and
  reading does not change the state. A read through the migrating layer runs a loop
  that may not end: the result of \<^verbatim>\<open>getItem\<close> is \<open>None\<close> when the call does not return.
\<close>

datatype item = Null | Undefined | Value string | Promise

record 's StateStorage =
  getItem :: "'s \<Rightarrow> string \<Rightarrow> (error + item) option"
  setItem :: "'s \<Rightarrow> string \<Rightarrow> string \<Rightarrow> error + 's"
  removeItem :: "'s \<Rightarrow> string \<Rightarrow> error + 's"

text \<open>A \<^verbatim>\<open>JSON.stringify\<close> result returned from \<^verbatim>\<open>getItem\<close>, and one passed on as the
  string to store (\<^verbatim>\<open>undefined\<close> is stored as its name, as \<^verbatim>\<open>localStorage\<close> does).\<close>

definition item_of :: "string option \<Rightarrow> item" where
  "item_of r = (case r of None \<Rightarrow> Undefined | Some s \<Rightarrow> Value s)"

definition String_of :: "string option \<Rightarrow> string" where
  "String_of r = (case r of None \<Rightarrow> ''undefined'' | Some s \<Rightarrow> s)"

text \<open>An option that is a boolean or an options object (\<^verbatim>\<open>EncryptionOptions | boolean\<close>).\<close>

datatype 'a flag_or = Flag bool | Options 'a

section \<open>Encryption (aes-gcm.ts)\<close>

datatype algorithm = AES_GCM | XSalsa20

definition algorithm_name :: "algorithm \<Rightarrow> string" where
  "algorithm_name a = (case a of AES_GCM \<Rightarrow> ''AES-GCM'' | XSalsa20 \<Rightarrow> ''XSalsa20'')"

text \<open>\<^verbatim>\<open>Omit<EncryptionOptions, 'secret'>\<close> and \<^verbatim>\<open>EncryptionOptions\<close>; \<open>None\<close> is a field
  that is not given.\<close>

record encrypt_config =
  algorithm :: "algorithm option"
  iterations :: "int option"
  keyLength :: "int option"
  salt :: "string option"
  iv :: "string option"

record EncryptionOptions = encrypt_config +
  secret :: string

text \<open>
  The functions of the CryptoJS library that the module calls, as parameters; each of
  them can throw (CryptoJS converts a text to bytes with \<^verbatim>\<open>encodeURIComponent\<close>, which
  throws a URIError on an unpaired surrogate):
  \<^item> \<open>PBKDF2 passphrase salt keyLength iterations\<close> is
    \<^verbatim>\<open>CryptoJS.PBKDF2(passphrase, salt, {keySize: keyLength / 32, iterations})\<close>;
  \<^item> \<open>AES_encrypt data key iv\<close> is the Base64 text of the ciphertext of
    \<^verbatim>\<open>CryptoJS.AES.encrypt(data, key, {iv: Hex.parse(iv), mode, padding})\<close>;
  \<^item> \<open>AES_decrypt ciphertext key iv\<close> is
    \<^verbatim>\<open>CryptoJS.AES.decrypt(ciphertext, key, {...}).toString(CryptoJS.enc.Utf8)\<close>.
  The salt, the iv and the ciphertext that \<open>decrypt\<close> reads come out of \<^verbatim>\<open>JSON.parse\<close>
  and are values of any type.
\<close>

record 'k CryptoJS =
  PBKDF2 :: "string \<Rightarrow> js \<Rightarrow> int \<Rightarrow> int \<Rightarrow> error + 'k"
  AES_encrypt :: "string \<Rightarrow> 'k \<Rightarrow> string \<Rightarrow> error + string"
  AES_decrypt :: "js \<Rightarrow> 'k \<Rightarrow> js \<Rightarrow> error + string"

definition DEFAULT_iterations :: int where "DEFAULT_iterations = 10000"
definition DEFAULT_keyLength :: int where "DEFAULT_keyLength = 256"

definition deriveKey :: "'k CryptoJS \<Rightarrow> string \<Rightarrow> js \<Rightarrow> int \<Rightarrow> int \<Rightarrow> error + 'k" where
  "deriveKey crypto passphrase salt_v iters keyLen = PBKDF2 crypto passphrase salt_v keyLen iters"

text \<open>\<^verbatim>\<open>config.salt || generateSalt()\<close> and \<^verbatim>\<open>config.iterations || 10000\<close>: the default
  of \<^verbatim>\<open>DEFAULT_OPTIONS\<close> for a field that is not given, then the fallback for a falsy
  value.\<close>

definition string_or :: "string option \<Rightarrow> string \<Rightarrow> string" where
  "string_or given fallback = (case given of None \<Rightarrow> fallback | Some s \<Rightarrow> if s = [] then fallback else s)"

definition number_or :: "int option \<Rightarrow> int \<Rightarrow> int \<Rightarrow> int" where
  "number_or given dflt fallback =
     (let n = (case given of None \<Rightarrow> dflt | Some n \<Rightarrow> n) in if n = 0 then fallback else n)"

text \<open>The object \<^verbatim>\<open>{ salt, iv, ciphertext, algorithm }\<close> that \<open>encrypt\<close> serializes.\<close>

definition envelope :: "string \<Rightarrow> string \<Rightarrow> string \<Rightarrow> algorithm \<Rightarrow> js" where
  "envelope salt_v iv_v ciphertext alg =
     JObj [(''salt'', JStr salt_v), (''iv'', JStr iv_v), (''ciphertext'', JStr ciphertext),
           (''algorithm'', JStr (algorithm_name alg))]"

text \<open>\<open>encrypt\<close>; \<open>random_salt\<close> and \<open>random_iv\<close> are what \<^verbatim>\<open>generateSalt()\<close> and
  \<^verbatim>\<open>generateIV()\<close> return when the call needs them.\<close>

definition encrypt ::
  "'k CryptoJS \<Rightarrow> string \<Rightarrow> string \<Rightarrow> string \<Rightarrow> string \<Rightarrow> 'a encrypt_config_scheme \<Rightarrow> error + string"
where
  "encrypt crypto random_salt random_iv data secret_v options =
     (if secret_v = [] then Inl (Error ''Encryption secret is required'')
      else
        (let config_algorithm = (case algorithm options of None \<Rightarrow> AES_GCM | Some a \<Rightarrow> a);
             salt_v = string_or (salt options) random_salt;
             iv_v = string_or (iv options) random_iv
         in case deriveKey crypto secret_v (JStr salt_v)
                   (number_or (iterations options) DEFAULT_iterations 10000)
                   (number_or (keyLength options) DEFAULT_keyLength 256) of
              Inl e \<Rightarrow> Inl e
            | Inr key \<Rightarrow>
                (case AES_encrypt crypto data key iv_v of
                   Inl e \<Rightarrow> Inl e
                 | Inr encrypted \<Rightarrow>
                     Inr (String_of (JSON_stringify (envelope salt_v iv_v encrypted config_algorithm))))))"

text \<open>The default \<^verbatim>\<open>{}\<close> of the \<open>options\<close> parameter of \<open>encrypt\<close>.\<close>

definition no_options :: encrypt_config where
  "no_options = \<lparr>algorithm = None, iterations = None, keyLength = None, salt = None, iv = None\<rparr>"

text \<open>The body of the \<^verbatim>\<open>try\<close> block of \<open>decrypt\<close>.\<close>

definition decrypt_try ::
  "(string \<Rightarrow> js option) \<Rightarrow> 'k CryptoJS \<Rightarrow> string \<Rightarrow> string \<Rightarrow> error + string"
where
  "decrypt_try parse crypto encryptedData secret_v =
     (case parse encryptedData of
        None \<Rightarrow> Inl SyntaxError
      | Some parsed \<Rightarrow>
          (case (get_property parsed ''salt'', get_property parsed ''iv'',
                 get_property parsed ''ciphertext'', get_property parsed ''algorithm'') of
             (Inr salt_v, Inr iv_v, Inr ciphertext, Inr alg) \<Rightarrow>
               if alg \<noteq> JStr ''AES-GCM'' then
                 (case js_toString alg of
                    Inl e \<Rightarrow> Inl e
                  | Inr a \<Rightarrow> Inl (Error (''Unsupported encryption algorithm: '' @ a)))
               else
                 (case deriveKey crypto secret_v salt_v DEFAULT_iterations DEFAULT_keyLength of
                    Inl e \<Rightarrow> Inl e
                  | Inr key \<Rightarrow>
                      (case AES_decrypt crypto ciphertext key iv_v of
                         Inl e \<Rightarrow> Inl e
                       | Inr result \<Rightarrow>
                           if result = [] then Inl (Error ''Failed to decrypt data. Check your secret key.'')
                           else Inr result))
           | _ \<Rightarrow> Inl TypeError))"

definition decrypt ::
  "(string \<Rightarrow> js option) \<Rightarrow> 'k CryptoJS \<Rightarrow> string \<Rightarrow> string \<Rightarrow> error + string"
where
  "decrypt parse crypto encryptedData secret_v =
     (if secret_v = [] then Inl (Error ''Encryption secret is required'')
      else (case decrypt_try parse crypto encryptedData secret_v of
              Inl e \<Rightarrow> Inl (Error ''Failed to decrypt data. Check your secret key.'')
            | Inr result \<Rightarrow> Inr result))"

section \<open>Compression (lz-string.ts)\<close>

record CompressionOptions =
  minSize :: "int option"
  level :: "int option"

text \<open>The two functions of the LZString library, as parameters;
  \<^verbatim>\<open>decompressFromUTF16\<close> returns \<^verbatim>\<open>null\<close> (\<open>None\<close>) for a text it cannot read.\<close>

record LZString =
  compressToUTF16 :: "string \<Rightarrow> string"
  decompressFromUTF16 :: "string \<Rightarrow> string option"

definition compress :: "LZString \<Rightarrow> string \<Rightarrow> string" where
  "compress lz data = compressToUTF16 lz data"

definition decompress :: "LZString \<Rightarrow> string \<Rightarrow> error + string" where
  "decompress lz compressedData =
     (case decompressFromUTF16 lz compressedData of
        None \<Rightarrow> Inl (Error ''Failed to decompress data'')
      | Some decompressed \<Rightarrow> Inr decompressed)"

definition shouldCompress :: "string \<Rightarrow> int option \<Rightarrow> bool" where
  "shouldCompress data minSize_v =
     (utf16_length data \<ge> (case minSize_v of None \<Rightarrow> 1024 | Some n \<Rightarrow> n))"

section \<open>The storage layers (persist-plus.ts)\<close>

subsection \<open>createEncryptedStorage\<close>

text \<open>\<open>draws name value\<close> is the pair of what \<^verbatim>\<open>generateSalt()\<close> and \<^verbatim>\<open>generateIV()\<close>
  return during the call \<^verbatim>\<open>setItem(name, value)\<close>.\<close>

definition createEncryptedStorage ::
  "(string \<Rightarrow> js option) \<Rightarrow> 'k CryptoJS \<Rightarrow> (string \<Rightarrow> string \<Rightarrow> string \<times> string) \<Rightarrow>
   's StateStorage \<Rightarrow> string \<Rightarrow> EncryptionOptions flag_or option \<Rightarrow> 's StateStorage"
where
  "createEncryptedStorage parse crypto draws storage secret_v encryptionOptions =
     (let options =
            (case encryptionOptions of
               Some (Options opts) \<Rightarrow> encrypt_config.truncate opts
             | _ \<Rightarrow> \<lparr>algorithm = Some AES_GCM, iterations = None, keyLength = None,
                     salt = None, iv = None\<rparr>)
      in \<lparr>getItem = (\<lambda>s name.
             case getItem storage s name of
               None \<Rightarrow> None
             | Some (Inl e) \<Rightarrow> Some (Inl e)
             | Some (Inr Null) \<Rightarrow> Some (Inr Null)
             | Some (Inr Undefined) \<Rightarrow> Some (Inr Null)
             | Some (Inr Promise) \<Rightarrow> Some (Inr Null)
             | Some (Inr (Value stored)) \<Rightarrow>
                 (case decrypt parse crypto stored secret_v of
                    Inr decrypted \<Rightarrow> Some (Inr (Value decrypted))
                  | Inl e \<Rightarrow> Some (Inr (Value stored)))),
           setItem = (\<lambda>s name value.
             case encrypt crypto (fst (draws name value)) (snd (draws name value)) value secret_v options of
               Inl e \<Rightarrow> Inl e
             | Inr encrypted \<Rightarrow> setItem storage s name encrypted),
           removeItem = (\<lambda>s name. removeItem storage s name)\<rparr>)"

subsection \<open>createCompressedStorage\<close>

definition createCompressedStorage ::
  "LZString \<Rightarrow> 's StateStorage \<Rightarrow> CompressionOptions flag_or option \<Rightarrow> 's StateStorage"
where
  "createCompressedStorage lz storage compressionOptions =
     (let options = (case compressionOptions of Some (Options opts) \<Rightarrow> Some opts | _ \<Rightarrow> None)
      in \<lparr>getItem = (\<lambda>s name.
             case getItem storage s name of
               None \<Rightarrow> None
             | Some (Inl e) \<Rightarrow> Some (Inl e)
             | Some (Inr Null) \<Rightarrow> Some (Inr Null)
             | Some (Inr Undefined) \<Rightarrow> Some (Inr Null)
             | Some (Inr Promise) \<Rightarrow> Some (Inr Null)
             | Some (Inr (Value stored)) \<Rightarrow>
                 (case decompress lz stored of
                    Inr decompressed \<Rightarrow> Some (Inr (Value decompressed))
                  | Inl e \<Rightarrow> Some (Inr (Value stored)))),
           setItem = (\<lambda>s name value.
             if shouldCompress value (case options of None \<Rightarrow> None | Some opts \<Rightarrow> minSize opts)
             then setItem storage s name (compress lz value)
             else setItem storage s name value),
           removeItem = (\<lambda>s name. removeItem storage s name)\<rparr>)"

subsection \<open>createMigratingStorage\<close>

text \<open>\<^verbatim>\<open>MigrationOptions\<close>: the version is a number; the migrations are keyed by version
  number (the property of a number is the one named by its text); a migration is a
  function of the caller's and can throw.\<close>

record MigrationOptions =
  version :: int
  migrations :: "int \<Rightarrow> (js \<Rightarrow> error + js) option"

text \<open>\<^verbatim>\<open>parsed._version || 0\<close>.\<close>

definition storedVersion_of :: "js \<Rightarrow> error + js" where
  "storedVersion_of parsed =
     (case get_property parsed ''_version'' of
        Inl e \<Rightarrow> Inl e
      | Inr x \<Rightarrow> Inr (if truthy x then x else JNum 0))"

text \<open>\<^verbatim>\<open>storedVersion < version\<close>, where \<^verbatim>\<open>version\<close> is a number: the stored version is
  converted to a number, and the comparison with \<^verbatim>\<open>NaN\<close> is false.\<close>

definition less_than_version :: "(string \<Rightarrow> int option) \<Rightarrow> js \<Rightarrow> int \<Rightarrow> error + bool" where
  "less_than_version str2num sv target =
     (case js_toNumber str2num sv of
        Inl e \<Rightarrow> Inl e
      | Inr None \<Rightarrow> Inr False
      | Inr (Some n) \<Rightarrow> Inr (n < target))"

text \<open>\<^verbatim>\<open>if (migrations[v]) migratedState = migrations[v](migratedState)\<close>.\<close>

definition apply_migration ::
  "(int \<Rightarrow> (js \<Rightarrow> error + js) option) \<Rightarrow> int \<Rightarrow> js \<Rightarrow> error + js"
where
  "apply_migration migs v migratedState =
     (case migs v of None \<Rightarrow> Inr migratedState | Some f \<Rightarrow> f migratedState)"

text \<open>
  The loop \<^verbatim>\<open>for (; v <= version; v++)\<close> from a number \<open>v\<close> on. The loop variable is a
  double: beyond \<open>2^53\<close> in absolute value the increment can round back to \<open>v\<close>, and the
  loop does not end. \<open>None\<close> is the loop that does not return.
\<close>

partial_function (option) migrate_loop ::
  "(int \<Rightarrow> (js \<Rightarrow> error + js) option) \<Rightarrow> int \<Rightarrow> int \<Rightarrow> js \<Rightarrow> (error + js) option"
where
  "migrate_loop migs target v migratedState =
     (if v \<le> target then
        (case apply_migration migs v migratedState of
           Inl e \<Rightarrow> Some (Inl e)
         | Inr next_state \<Rightarrow> migrate_loop migs target (plus_one v) next_state)
      else Some (Inr migratedState))"

text \<open>
  The upgrade as the specification words it: the migrations of the versions of a list
  are applied in the order of the list, and a version without a migration is skipped.
  The loop of the code is compared with it below.
\<close>

fun apply_in_order :: "(int \<Rightarrow> (js \<Rightarrow> error + js) option) \<Rightarrow> int list \<Rightarrow> js \<Rightarrow> error + js" where
  "apply_in_order migs [] st = Inr st"
| "apply_in_order migs (v # vs) st =
     (case migs v of
        None \<Rightarrow> apply_in_order migs vs st
      | Some f \<Rightarrow> (case f st of Inl e \<Rightarrow> Inl e | Inr st' \<Rightarrow> apply_in_order migs vs st'))"

text \<open>
  The whole loop \<^verbatim>\<open>for (let v = storedVersion + 1; v <= version; v++)\<close>. For a stored
  version that is a number (or \<^verbatim>\<open>true\<close>, which \<^verbatim>\<open>+\<close> converts to 1) the loop variable
  is a number from the start. For a string, an array, an object or a function, \<^verbatim>\<open>+\<close>
  concatenates: the loop variable starts as the string \<open>s @ ''1''\<close>; it is compared as a
  number, names the property \<^verbatim>\<open>migrations[v]\<close> by its text (the property of the version
  number whose text it is), and \<^verbatim>\<open>v++\<close> makes it a number for the rest of the loop.
\<close>

definition migrate_from ::
  "(string \<Rightarrow> int option) \<Rightarrow> (int \<Rightarrow> (js \<Rightarrow> error + js) option) \<Rightarrow> int \<Rightarrow> js \<Rightarrow> js \<Rightarrow>
   (error + js) option"
where
  "migrate_from str2num migs target sv parsed =
     (let string_start = (\<lambda>s.
            case str2num (s @ ''1'') of
              None \<Rightarrow> Some (Inr parsed)
            | Some n \<Rightarrow>
                if n \<le> target then
                  (case (if Number_toString n = s @ ''1'' then apply_migration migs n parsed
                         else Inr parsed) of
                     Inl e \<Rightarrow> Some (Inl e)
                   | Inr next_state \<Rightarrow> migrate_loop migs target (plus_one n) next_state)
                else Some (Inr parsed))
      in case sv of
           JNum n \<Rightarrow> migrate_loop migs target (plus_one n) parsed
         | JBool b \<Rightarrow> migrate_loop migs target (plus_one (if b then 1 else 0)) parsed
         | JNull \<Rightarrow> migrate_loop migs target (plus_one 0) parsed
         | JUndefined \<Rightarrow> Some (Inr parsed)
         | JStr s \<Rightarrow> string_start s
         | _ \<Rightarrow> (case js_toString sv of Inl e \<Rightarrow> Some (Inl e) | Inr s \<Rightarrow> string_start s))"

text \<open>The body of the \<^verbatim>\<open>try\<close> block of \<^verbatim>\<open>getItem\<close>: what it returns, or what it throws;
  \<open>None\<close> when it does not return.\<close>

definition migrating_read ::
  "(string \<Rightarrow> js option) \<Rightarrow> (string \<Rightarrow> int option) \<Rightarrow> MigrationOptions \<Rightarrow> string \<Rightarrow>
   (error + item) option"
where
  "migrating_read parse str2num migrationOptions stored =
     (case parse stored of
        None \<Rightarrow> Some (Inl SyntaxError)
      | Some parsed \<Rightarrow>
          (case storedVersion_of parsed of
             Inl e \<Rightarrow> Some (Inl e)
           | Inr sv \<Rightarrow>
               (case less_than_version str2num sv (version migrationOptions) of
                  Inl e \<Rightarrow> Some (Inl e)
                | Inr False \<Rightarrow> Some (Inr (Value stored))
                | Inr True \<Rightarrow>
                    (case migrate_from str2num (migrations migrationOptions)
                            (version migrationOptions) sv parsed of
                       None \<Rightarrow> None
                     | Some (Inl e) \<Rightarrow> Some (Inl e)
                     | Some (Inr migratedState) \<Rightarrow>
                         (case set_property migratedState ''_version'' (JNum (version migrationOptions)) of
                            Inl e \<Rightarrow> Some (Inl e)
                          | Inr stamped \<Rightarrow> Some (Inr (item_of (JSON_stringify stamped))))))))"

definition createMigratingStorage ::
  "(string \<Rightarrow> js option) \<Rightarrow> (string \<Rightarrow> int option) \<Rightarrow> 's StateStorage \<Rightarrow> MigrationOptions \<Rightarrow>
   's StateStorage"
where
  "createMigratingStorage parse str2num storage migrationOptions =
     \<lparr>getItem = (\<lambda>s name.
        case getItem storage s name of
          None \<Rightarrow> None
        | Some (Inl e) \<Rightarrow> Some (Inl e)
        | Some (Inr Null) \<Rightarrow> Some (Inr Null)
        | Some (Inr Undefined) \<Rightarrow> Some (Inr Null)
        | Some (Inr Promise) \<Rightarrow> Some (Inr Null)
        | Some (Inr (Value stored)) \<Rightarrow>
            (case migrating_read parse str2num migrationOptions stored of
               None \<Rightarrow> None
             | Some (Inr result) \<Rightarrow> Some (Inr result)
             | Some (Inl e) \<Rightarrow> Some (Inr (Value stored)))),
      setItem = (\<lambda>s name value.
        case (case parse value of
                None \<Rightarrow> Inl SyntaxError
              | Some parsed \<Rightarrow>
                  (case set_property parsed ''_version'' (JNum (version migrationOptions)) of
                     Inl e \<Rightarrow> Inl e
                   | Inr stamped \<Rightarrow> setItem storage s name (String_of (JSON_stringify stamped)))) of
          Inr s' \<Rightarrow> Inr s'
        | Inl e \<Rightarrow> setItem storage s name value),
      removeItem = (\<lambda>s name. removeItem storage s name)\<rparr>"

subsection \<open>createPersistPlus\<close>

text \<open>
  The state of the backing store has a component for the browser's \<^verbatim>\<open>localStorage\<close>
  (\<open>None\<close> where \<^verbatim>\<open>typeof localStorage === 'undefined'\<close>); a caller's own adapter works on
  the rest of the state.
\<close>

record world =
  localStorage :: "(string \<rightharpoonup> string) option"

datatype 's storage_choice = Named string | Adapter "'s StateStorage"

record 's PersistPlusOptions =
  name :: string
  storage :: "'s storage_choice option"
  encrypt_opt :: "EncryptionOptions flag_or option"
  compress_opt :: "CompressionOptions flag_or option"
  migrate_opt :: "MigrationOptions option"

definition localStorage_adapter :: "'a world_scheme StateStorage" where
  "localStorage_adapter =
     \<lparr>getItem = (\<lambda>w name.
        case localStorage w of
          None \<Rightarrow> Some (Inr Null)
        | Some m \<Rightarrow> Some (Inr (case m name of None \<Rightarrow> Null | Some v \<Rightarrow> Value v))),
      setItem = (\<lambda>w name value.
        case localStorage w of
          None \<Rightarrow> Inr w
        | Some m \<Rightarrow> Inr (w\<lparr>localStorage := Some (m(name \<mapsto> value))\<rparr>)),
      removeItem = (\<lambda>w name.
        case localStorage w of
          None \<Rightarrow> Inr w
        | Some m \<Rightarrow> Inr (w\<lparr>localStorage := Some (m(name := None))\<rparr>))\<rparr>"

text \<open>The truth value of an option that is a boolean, an object or not given.\<close>

definition given :: "'a flag_or option \<Rightarrow> bool" where
  "given opt = (case opt of None \<Rightarrow> False | Some (Flag b) \<Rightarrow> b | Some (Options x) \<Rightarrow> True)"

definition createPersistPlus ::
  "(string \<Rightarrow> js option) \<Rightarrow> (string \<Rightarrow> int option) \<Rightarrow> 'k CryptoJS \<Rightarrow>
   (string \<Rightarrow> string \<Rightarrow> string \<times> string) \<Rightarrow> LZString \<Rightarrow>
   'a world_scheme PersistPlusOptions \<Rightarrow> 'a world_scheme StateStorage"
where
  "createPersistPlus parse str2num crypto draws lz options =
     (let base = (case storage options of
                    None \<Rightarrow> localStorage_adapter
                  | Some (Named n) \<Rightarrow> localStorage_adapter
                  | Some (Adapter a) \<Rightarrow> a);
          migrating = (case migrate_opt options of
                         None \<Rightarrow> base
                       | Some migrationOptions \<Rightarrow>
                           createMigratingStorage parse str2num base migrationOptions);
          compressing = (if given (compress_opt options)
                         then createCompressedStorage lz migrating (compress_opt options)
                         else migrating)
      in if given (encrypt_opt options) then
           createEncryptedStorage parse crypto draws compressing
             (case encrypt_opt options of Some (Options opts) \<Rightarrow> secret opts | _ \<Rightarrow> [])
             (encrypt_opt options)
         else compressing)"

section \<open>Conflict resolution\<close>

text \<open>
  The states the resolver reconciles are plain objects (\<^verbatim>\<open>T extends object\<close>), modelled
  as their property lists. A conflict handler and a merge function are functions of the
  caller's on the two states and can throw; the options they receive as a third
  argument are the resolver's own and fixed, so they are not passed in the model.
\<close>

datatype SyncStrategy = LastWriteWins | ServerWins | ClientWins | Merge | Custom

type_synonym state = "(string \<times> js) list"

record SyncConflictOptions =
  strategy :: SyncStrategy
  onConflict :: "(state \<Rightarrow> state \<Rightarrow> error + state) option"
  mergeStrategy :: "(state \<Rightarrow> state \<Rightarrow> error + state) option"
  ignoreKeys :: "string list option"
  forceLWWKeys :: "string list option"
  timestampKey :: "string option"

record SyncResult =
  state :: state
  hadConflict :: bool
  strategy :: SyncStrategy
  timestamp :: int

subsection \<open>lastWriteWins, serverWins, clientWins\<close>

text \<open>
  \<^verbatim>\<open>new Date(value).getTime()\<close>; \<open>None\<close> is \<^verbatim>\<open>NaN\<close>, the time of an invalid date. A number
  is a time value when it is at most 8.64e15 in absolute value; a string goes through
  \<^verbatim>\<open>Date.parse\<close>, the parameter \<open>date_parse\<close>; an array, an object or a function is
  converted to a string first.
\<close>

definition TimeClip :: "int \<Rightarrow> int option" where
  "TimeClip t = (if \<bar>t\<bar> \<le> 8640000000000000 then Some t else None)"

fun Date_getTime :: "(string \<Rightarrow> int option) \<Rightarrow> js \<Rightarrow> error + int option" where
  "Date_getTime date_parse JUndefined = Inr None"
| "Date_getTime date_parse JNull = Inr (Some 0)"
| "Date_getTime date_parse (JBool b) = Inr (Some (if b then 1 else 0))"
| "Date_getTime date_parse (JNum n) = Inr (TimeClip n)"
| "Date_getTime date_parse (JStr s) = Inr (date_parse s)"
| "Date_getTime date_parse v =
     (case js_toString v of Inl e \<Rightarrow> Inl e | Inr s \<Rightarrow> Inr (date_parse s))"

text \<open>\<^verbatim>\<open>timestamp ? new Date(timestamp).getTime() : 0\<close>.\<close>

definition time_of :: "(string \<Rightarrow> int option) \<Rightarrow> js \<Rightarrow> error + int option" where
  "time_of date_parse timestamp_v =
     (if truthy timestamp_v then Date_getTime date_parse timestamp_v else Inr (Some 0))"

text \<open>\<^verbatim>\<open>a > b\<close> on two times: false when either is \<^verbatim>\<open>NaN\<close>.\<close>

definition time_greater :: "int option \<Rightarrow> int option \<Rightarrow> bool" where
  "time_greater a b = (case (a, b) of (Some x, Some y) \<Rightarrow> x > y | _ \<Rightarrow> False)"

definition lastWriteWins ::
  "(string \<Rightarrow> int option) \<Rightarrow> state \<Rightarrow> state \<Rightarrow> string option \<Rightarrow> error + state"
where
  "lastWriteWins date_parse localState remoteState timestampKey_v =
     (let key = (case timestampKey_v of None \<Rightarrow> ''_updatedAt'' | Some k \<Rightarrow> k) in
      case js_get localState key of
        Inl e \<Rightarrow> Inl e
      | Inr localTimestamp \<Rightarrow>
          (case js_get remoteState key of
             Inl e \<Rightarrow> Inl e
           | Inr remoteTimestamp \<Rightarrow>
               (case time_of date_parse localTimestamp of
                  Inl e \<Rightarrow> Inl e
                | Inr localTime \<Rightarrow>
                    (case time_of date_parse remoteTimestamp of
                       Inl e \<Rightarrow> Inl e
                     | Inr remoteTime \<Rightarrow>
                         Inr (if time_greater remoteTime localTime then remoteState
                              else localState)))))"

definition serverWins :: "state \<Rightarrow> state \<Rightarrow> state" where
  "serverWins localState remoteState = remoteState"

definition clientWins :: "state \<Rightarrow> state \<Rightarrow> state" where
  "clientWins localState remoteState = localState"

subsection \<open>mergeStates\<close>

text \<open>\<^verbatim>\<open>typeof v === 'object'\<close>, not \<^verbatim>\<open>null\<close> and not an array; and the properties of
  such a value.\<close>

fun is_plain_object :: "js \<Rightarrow> bool" where
  "is_plain_object (JObj kvs) = True"
| "is_plain_object v = False"

fun props :: "js \<Rightarrow> state" where
  "props (JObj kvs) = kvs"
| "props v = []"

text \<open>\<^verbatim>\<open>new Set([...])\<close>: the keys in the order of their first occurrence.\<close>

definition key_set :: "string list \<Rightarrow> string list" where
  "key_set ks = fold (\<lambda>k seen. if k \<in> set seen then seen else seen @ [k]) ks []"

text \<open>\<^verbatim>\<open>const { ignoreKeys = [], forceLWWKeys = [] } = options || {}\<close>.\<close>

definition merge_ignoreKeys :: "SyncConflictOptions option \<Rightarrow> string list" where
  "merge_ignoreKeys options =
     (case options of None \<Rightarrow> [] | Some opts \<Rightarrow> (case ignoreKeys opts of None \<Rightarrow> [] | Some ks \<Rightarrow> ks))"

definition merge_forceLWWKeys :: "SyncConflictOptions option \<Rightarrow> string list" where
  "merge_forceLWWKeys options =
     (case options of None \<Rightarrow> [] | Some opts \<Rightarrow> (case forceLWWKeys opts of None \<Rightarrow> [] | Some ks \<Rightarrow> ks))"

lemma size_obj_get:
  "is_plain_object (obj_get kvs k) \<Longrightarrow>
   size_list (size_prod (\<lambda>x. 0) size) (props (obj_get kvs k)) < size_list (size_prod (\<lambda>x. 0) size) kvs"
  by (induction kvs) (auto split: if_splits elim: is_plain_object.elims)

lemma size_js_get:
  "js_get kvs k = Inr v \<Longrightarrow> is_plain_object v \<Longrightarrow>
   size_list (size_prod (\<lambda>x. 0) size) (props v) < size_list (size_prod (\<lambda>x. 0) size) kvs"
  using size_obj_get [of kvs k]
  by (auto simp add: js_get_def js_read_def split: if_splits)

text \<open>
  The loop over \<^verbatim>\<open>allKeys\<close> updates \<open>result\<close>, which starts as the copy
  \<^verbatim>\<open>{ ...localState }\<close>. The values of the key are read from the two states with
  \<^verbatim>\<open>localState[key]\<close> and \<^verbatim>\<open>remoteState[key]\<close>, through the prototype chain; the
  recursive call is made without options.
\<close>

function mergeStates :: "SyncConflictOptions option \<Rightarrow> state \<Rightarrow> state \<Rightarrow> error + state" where
  "mergeStates options localState remoteState =
     foldl (\<lambda>result key.
        case result of
          Inl e \<Rightarrow> Inl e
        | Inr res \<Rightarrow>
            if key \<in> set (merge_ignoreKeys options) then Inr res
            else
              (case js_get localState key of
                 Inl e \<Rightarrow> Inl e
               | Inr localVal \<Rightarrow>
                   (case js_get remoteState key of
                      Inl e \<Rightarrow> Inl e
                    | Inr remoteVal \<Rightarrow>
                        if key \<in> set (merge_forceLWWKeys options) then js_assign key remoteVal res
                        else if is_plain_object localVal \<and> is_plain_object remoteVal then
                          (case mergeStates None (props localVal) (props remoteVal) of
                             Inl e \<Rightarrow> Inl e
                           | Inr merged \<Rightarrow> js_assign key (JObj merged) res)
                        else if remoteVal \<noteq> JUndefined then js_assign key remoteVal res
                        else Inr res)))
      (Inr localState) (key_set (Object_keys localState @ Object_keys remoteState))"
  by pat_completeness auto
termination
  apply (relation "measure (\<lambda>(options, l, r). size_list (size_prod (\<lambda>x. 0) size) l)")
   apply simp
  apply (simp add: size_js_get)
  done

declare mergeStates.simps [simp del]



subsection \<open>createConflictResolver\<close>

text \<open>The resolver object: the variables its closures share. \<^verbatim>\<open>setStrategy\<close> and
  \<^verbatim>\<open>setCustomHandler\<close> assign to them.\<close>

record resolver =
  currentStrategy :: SyncStrategy
  customHandler :: "(state \<Rightarrow> state \<Rightarrow> error + state) option"
  mergeFn :: "state \<Rightarrow> state \<Rightarrow> error + state"
  resolver_options :: SyncConflictOptions

definition createConflictResolver :: "SyncConflictOptions \<Rightarrow> resolver" where
  "createConflictResolver options =
     \<lparr>currentStrategy = SyncConflictOptions.strategy options,
      customHandler = onConflict options,
      mergeFn = (case mergeStrategy options of
                   Some f \<Rightarrow> f
                 | None \<Rightarrow> (\<lambda>localState remoteState. mergeStates (Some options) localState remoteState)),
      resolver_options = options\<rparr>"

text \<open>\<open>now\<close> is what \<^verbatim>\<open>new Date()\<close> gives during the call.\<close>

definition resolveWithResult ::
  "(string \<Rightarrow> int option) \<Rightarrow> int \<Rightarrow> resolver \<Rightarrow> state \<Rightarrow> state \<Rightarrow> error + SyncResult"
where
  "resolveWithResult date_parse now r localState remoteState =
     (if JSON_stringify (JObj localState) = JSON_stringify (JObj remoteState) then
        Inr \<lparr>state = localState, hadConflict = False, strategy = LastWriteWins, timestamp = now\<rparr>
      else
        (case (case currentStrategy r of
                 LastWriteWins \<Rightarrow>
                   lastWriteWins date_parse localState remoteState (timestampKey (resolver_options r))
               | ServerWins \<Rightarrow> Inr (serverWins localState remoteState)
               | ClientWins \<Rightarrow> Inr (clientWins localState remoteState)
               | Merge \<Rightarrow> mergeFn r localState remoteState
               | Custom \<Rightarrow>
                   (case customHandler r of
                      Some handler \<Rightarrow> handler localState remoteState
                    | None \<Rightarrow>
                        lastWriteWins date_parse localState remoteState
                          (timestampKey (resolver_options r)))) of
           Inl e \<Rightarrow> Inl e
         | Inr resolved \<Rightarrow>
             Inr \<lparr>state = resolved, hadConflict = True, strategy = currentStrategy r,
                  timestamp = now\<rparr>))"

definition resolve ::
  "(string \<Rightarrow> int option) \<Rightarrow> int \<Rightarrow> resolver \<Rightarrow> state \<Rightarrow> state \<Rightarrow> error + state"
where
  "resolve date_parse now r localState remoteState =
     (case resolveWithResult date_parse now r localState remoteState of
        Inl e \<Rightarrow> Inl e
      | Inr result \<Rightarrow> Inr (state result))"

definition setStrategy :: "resolver \<Rightarrow> SyncStrategy \<Rightarrow> resolver" where
  "setStrategy r s = r\<lparr>currentStrategy := s\<rparr>"

definition setCustomHandler :: "resolver \<Rightarrow> (state \<Rightarrow> state \<Rightarrow> error + state) \<Rightarrow> resolver" where
  "setCustomHandler r handler = r\<lparr>customHandler := Some handler\<rparr>"

section \<open>Stand-ins for the libraries\<close>

text \<open>
  For evaluating the layers on concrete inputs, the library parameters are instantiated
  with small stand-ins. \<open>toy_crypto\<close> is not AES: its key is the passphrase and the salt,
  its ciphertext is the data behind the key, and decrypting under another key gives the
  empty text (what the comment in \<open>decrypt\<close> says a wrong key gives). Like CryptoJS, it
  throws a URIError where it converts a text with an unpaired surrogate to bytes: the
  passphrase and the salt of the key derivation, and the data to encrypt. \<open>toy_lz\<close>
  marks a compressed text with a prefix and cannot read a text without it.
\<close>

definition toy_crypto :: "string CryptoJS" where
  "toy_crypto =
     \<lparr>PBKDF2 = (\<lambda>passphrase salt_v keyLen iters.
                  if has_lone_surrogate passphrase
                     \<or> (case salt_v of JStr s \<Rightarrow> has_lone_surrogate s | _ \<Rightarrow> False)
                  then Inl URIError
                  else Inr (passphrase @ ''/'' @ (case salt_v of JStr s \<Rightarrow> s | _ \<Rightarrow> []))),
      AES_encrypt = (\<lambda>data key iv_v.
                  if has_lone_surrogate data then Inl URIError else Inr (key @ '':'' @ data)),
      AES_decrypt = (\<lambda>ciphertext key iv_v.
                  case ciphertext of
                    JStr c \<Rightarrow> Inr (if take (length key + 1) c = key @ '':'' then drop (length key + 1) c else [])
                  | _ \<Rightarrow> Inl TypeError)\<rparr>"

definition toy_lz :: LZString where
  "toy_lz = \<lparr>compressToUTF16 = (\<lambda>data. ''LZ'' @ data),
             decompressFromUTF16 = (\<lambda>c. if take 2 c = ''LZ'' then Some (drop 2 c) else None)\<rparr>"

text \<open>The two migrations of the migration scenario: version 1 adds \<^verbatim>\<open>createdAt\<close>,
  version 2 renames \<^verbatim>\<open>count\<close> to \<^verbatim>\<open>total\<close>.\<close>

definition add_createdAt :: "js \<Rightarrow> error + js" where
  "add_createdAt st =
     (case st of
        JObj kvs \<Rightarrow> Inr (JObj (obj_set ''createdAt'' (JNum 1700000000000) kvs))
      | _ \<Rightarrow> Inl TypeError)"

definition rename_count_to_total :: "js \<Rightarrow> error + js" where
  "rename_count_to_total st =
     (case st of
        JObj kvs \<Rightarrow> Inr (JObj ((''total'', obj_get kvs ''count'') # filter (\<lambda>kv. fst kv \<noteq> ''count'') kvs))
      | _ \<Rightarrow> Inl TypeError)"

definition scenario_migrations :: "int \<Rightarrow> (js \<Rightarrow> error + js) option" where
  "scenario_migrations v =
     (if v = 1 then Some add_createdAt else if v = 2 then Some rename_count_to_total else None)"

text \<open>A conflict handler that throws when it is called, and merge options that name an
  ignored key and a forced key.\<close>

definition throwing_handler :: "state \<Rightarrow> state \<Rightarrow> error + state" where
  "throwing_handler localState remoteState = Inl (Error ''handler called'')"


section \<open>Properties\<close>

subsection \<open>Objects\<close>




lemma obj_get_absent: "k \<notin> set (Object_keys kvs) \<Longrightarrow> obj_get kvs k = JUndefined"
  unfolding Object_keys_def by (induction kvs) auto

lemma obj_get_replace_value:
  "k \<in> set (map fst kvs) \<Longrightarrow>
   obj_get (replace_value k v kvs) k' = (if k' = k then v else obj_get kvs k')"
  by (induction k v kvs rule: replace_value.induct) (force simp add: image_iff)+

lemma obj_get_insert_index:
  "k \<notin> set (map fst kvs) \<Longrightarrow>
   obj_get (insert_index k v kvs) k' = (if k' = k then v else obj_get kvs k')"
  by (induction k v kvs rule: insert_index.induct) (force simp add: image_iff)+

lemma obj_get_append:
  "k \<notin> set (map fst kvs) \<Longrightarrow>
   obj_get (kvs @ [(k, v)]) k' = (if k' = k then v else obj_get kvs k')"
  by (induction kvs) (force simp add: image_iff)+

lemma obj_get_obj_set: "obj_get (obj_set k v kvs) k' = (if k' = k then v else obj_get kvs k')"
proof (cases "k \<in> set (map fst kvs)")
  case True
  then show ?thesis
    using obj_get_replace_value [of k kvs v k'] by (simp add: obj_set_def Object_keys_def del: set_map)
next
  case False
  then show ?thesis
    using obj_get_insert_index [of k kvs v k'] obj_get_append [of k kvs v k']
    by (cases "k' = k"; cases "is_array_index k") (simp_all add: obj_set_def Object_keys_def del: set_map)
qed

lemma set_property_version:
  "set_property (JObj kvs) ''_version'' x = Inr (JObj (obj_set ''_version'' x kvs))"
  by (simp add: js_assign_def)



subsection \<open>The storage layers\<close>

text \<open>
  C3. On each of the three layers, when the inner read returns a stored blob and the
  layer's inverse transform (\<open>decrypt\<close>, \<open>decompress\<close>, or the parse-and-migrate body of
  the migrating read) throws, whatever the error, the layer's read returns that blob
  unchanged and throws nothing; when the inner read returns \<^verbatim>\<open>null\<close> or \<^verbatim>\<open>undefined\<close>,
  the layer's read returns \<^verbatim>\<open>null\<close>.
\<close>

theorem transform_layers_fail_open:
  "(getItem inner s key = Some (Inr (Value stored)) \<and> decrypt parse crypto stored secret_v = Inl e \<longrightarrow>
      getItem (createEncryptedStorage parse crypto draws inner secret_v eopts) s key
        = Some (Inr (Value stored)))
   \<and> (getItem inner s key = Some (Inr (Value stored)) \<and> decompress lz stored = Inl e \<longrightarrow>
      getItem (createCompressedStorage lz inner copts) s key = Some (Inr (Value stored)))
   \<and> (getItem inner s key = Some (Inr (Value stored))
      \<and> migrating_read parse str2num mopts stored = Some (Inl e) \<longrightarrow>
      getItem (createMigratingStorage parse str2num inner mopts) s key = Some (Inr (Value stored)))
   \<and> (getItem inner s key = Some (Inr Null) \<or> getItem inner s key = Some (Inr Undefined) \<longrightarrow>
      getItem (createEncryptedStorage parse crypto draws inner secret_v eopts) s key = Some (Inr Null)
      \<and> getItem (createCompressedStorage lz inner copts) s key = Some (Inr Null)
      \<and> getItem (createMigratingStorage parse str2num inner mopts) s key = Some (Inr Null))"
  by (auto simp add: createEncryptedStorage_def createCompressedStorage_def createMigratingStorage_def Let_def)

theorem transform_layers_fail_open_witness:
  \<open>(let inner = localStorage_adapter;
        w = \<lparr>localStorage = Some [''app'' \<mapsto> ''{"count":5}'', ''raw'' \<mapsto> ''not json'']\<rparr>;
        mopts = \<lparr>version = 1, migrations = Map.empty\<rparr>
    in getItem inner w ''app'' = Some (Inr (Value ''{"count":5}''))
     \<and> decrypt JSON_parse toy_crypto ''{"count":5}'' ''k'' = Inl (Error ''Failed to decrypt data. Check your secret key.'')
     \<and> getItem (createEncryptedStorage JSON_parse toy_crypto (\<lambda>n v. (''s'', ''i'')) inner ''k'' None) w ''app'' = Some (Inr (Value ''{"count":5}''))
     \<and> decompress toy_lz ''{"count":5}'' = Inl (Error ''Failed to decompress data'')
     \<and> getItem (createCompressedStorage toy_lz inner None) w ''app'' = Some (Inr (Value ''{"count":5}''))
     \<and> getItem inner w ''raw'' = Some (Inr (Value ''not json''))
     \<and> migrating_read JSON_parse StringToNumber mopts ''not json'' = Some (Inl SyntaxError)
     \<and> getItem (createMigratingStorage JSON_parse StringToNumber inner mopts) w ''raw'' = Some (Inr (Value ''not json''))
     \<and> getItem inner w ''gone'' = Some (Inr Null)
     \<and> getItem (createEncryptedStorage JSON_parse toy_crypto (\<lambda>n v. (''s'', ''i'')) inner ''k'' None) w ''gone'' = Some (Inr Null)
     \<and> getItem (createCompressedStorage toy_lz inner None) w ''gone'' = Some (Inr Null)
     \<and> getItem (createMigratingStorage JSON_parse StringToNumber inner mopts) w ''gone'' = Some (Inr Null))\<close>
proof -
  let ?w = \<open>\<lparr>localStorage = Some [''app'' \<mapsto> ''{"count":5}'', ''raw'' \<mapsto> ''not json'']\<rparr>\<close>
  let ?m = "\<lparr>version = 1, migrations = Map.empty\<rparr>"
  have a: \<open>getItem localStorage_adapter ?w ''app'' = Some (Inr (Value ''{"count":5}''))\<close>
    by (simp add: localStorage_adapter_def)
  have b: \<open>decrypt JSON_parse toy_crypto ''{"count":5}'' ''k'' = Inl (Error ''Failed to decrypt data. Check your secret key.'')\<close>
    by code_simp
  have c: \<open>decompress toy_lz ''{"count":5}'' = Inl (Error ''Failed to decompress data'')\<close>
    by code_simp
  have d: \<open>getItem localStorage_adapter ?w ''raw'' = Some (Inr (Value ''not json''))\<close>
    by (simp add: localStorage_adapter_def)
  have e: \<open>migrating_read JSON_parse StringToNumber ?m ''not json'' = Some (Inl SyntaxError)\<close>
    by code_simp
  have f: \<open>getItem localStorage_adapter ?w ''gone'' = Some (Inr Null)\<close>
    by (simp add: localStorage_adapter_def)
  have enc: \<open>getItem (createEncryptedStorage JSON_parse toy_crypto (\<lambda>n v. (''s'', ''i'')) localStorage_adapter ''k'' None) ?w ''app'' = Some (Inr (Value ''{"count":5}''))\<close>
    by (rule transform_layers_fail_open [THEN conjunct1, rule_format, OF conjI [OF a b]])
  have cmp: \<open>getItem (createCompressedStorage toy_lz localStorage_adapter None) ?w ''app'' = Some (Inr (Value ''{"count":5}''))\<close>
    by (rule transform_layers_fail_open [THEN conjunct2, THEN conjunct1, rule_format, OF conjI [OF a c]])
  have mig: \<open>getItem (createMigratingStorage JSON_parse StringToNumber localStorage_adapter ?m) ?w ''raw'' = Some (Inr (Value ''not json''))\<close>
    by (rule transform_layers_fail_open [THEN conjunct2, THEN conjunct2, THEN conjunct1, rule_format, OF conjI [OF d e]])
  have absent: \<open>getItem (createEncryptedStorage JSON_parse toy_crypto (\<lambda>n v. (''s'', ''i'')) localStorage_adapter ''k'' None) ?w ''gone'' = Some (Inr Null)
      \<and> getItem (createCompressedStorage toy_lz localStorage_adapter None) ?w ''gone'' = Some (Inr Null)
      \<and> getItem (createMigratingStorage JSON_parse StringToNumber localStorage_adapter ?m) ?w ''gone'' = Some (Inr Null)\<close>
    by (rule transform_layers_fail_open [THEN conjunct2, THEN conjunct2, THEN conjunct2, rule_format, OF disjI1 [OF f]])
  show ?thesis
    unfolding Let_def using a b c d e f enc cmp mig absent by blast
qed

text \<open>
  C9. With \<^verbatim>\<open>encrypt: true\<close> the storage that \<open>createPersistPlus\<close> returns is the
  encryption layer built with the empty string as its secret (over whatever inner
  layers the other options select), so \<^verbatim>\<open>setItem\<close> on it throws
  \<^verbatim>\<open>Encryption secret is required\<close>, whatever the key, the value, the other options and
  the state of the store.
\<close>

theorem persist_plus_encrypt_true_setItem_raises:
  "(\<exists>inner. createPersistPlus parse str2num crypto draws lz (options\<lparr>encrypt_opt := Some (Flag True)\<rparr>)
             = createEncryptedStorage parse crypto draws inner [] (Some (Flag True)))
   \<and> setItem (createPersistPlus parse str2num crypto draws lz (options\<lparr>encrypt_opt := Some (Flag True)\<rparr>)) w key val
       = Inl (Error ''Encryption secret is required'')"
proof
  show "\<exists>inner. createPersistPlus parse str2num crypto draws lz (options\<lparr>encrypt_opt := Some (Flag True)\<rparr>)
             = createEncryptedStorage parse crypto draws inner [] (Some (Flag True))"
    by (simp add: createPersistPlus_def given_def Let_def) blast
  show "setItem (createPersistPlus parse str2num crypto draws lz (options\<lparr>encrypt_opt := Some (Flag True)\<rparr>)) w key val
       = Inl (Error ''Encryption secret is required'')"
    by (simp add: createPersistPlus_def given_def createEncryptedStorage_def encrypt_def Let_def)
qed

subsection \<open>The migrating layer\<close>

lemma plus_one_exact:
  "- 9007199254740993 \<le> v \<Longrightarrow> v < 9007199254740992 \<Longrightarrow> plus_one v = v + 1"
  unfolding plus_one_def round_to_double_def Let_def by auto

lemma migrate_loop_upto:
  "- 9007199254740993 \<le> v \<Longrightarrow> target < 9007199254740992 \<Longrightarrow>
   migrate_loop migs target v st = Some (apply_in_order migs [v..target] st)"
proof (induction "nat (target + 1 - v)" arbitrary: v st)
  case 0
  then have "\<not> v \<le> target" by simp
  then show ?case by (subst migrate_loop.simps) simp
next
  case (Suc n)
  then have le: "v \<le> target" by simp
  have p: "plus_one v = v + 1"
    using Suc.prems le by (simp add: plus_one_exact)
  have n: "n = nat (target + 1 - (v + 1))"
    using Suc.hyps(2) by simp
  have IH: "\<And>st'. migrate_loop migs target (v + 1) st' = Some (apply_in_order migs [v + 1..target] st')"
    using Suc.hyps(1) [OF n] Suc.prems by simp
  show ?case
    using le by (subst migrate_loop.simps)
      (auto simp add: p IH upto_rec1 [of v target] apply_migration_def split: option.splits sum.splits)
qed

lemma migrate_loop_stuck:
  assumes "plus_one v = v" and "v \<le> target" and "migs v = None"
  shows "migrate_loop migs target v st = None"
proof (rule ccontr)
  assume "migrate_loop migs target v st \<noteq> None"
  then obtain y where y: "migrate_loop migs target v st = Some y" by auto
  have "\<not> (plus_one v = v \<and> v \<le> target \<and> migs v = None)"
  proof (rule migrate_loop.raw_induct
          [where P = "\<lambda>migs target v st y. \<not> (plus_one v = v \<and> v \<le> target \<and> migs v = None)",
           OF _ y])
    fix f :: "(int \<Rightarrow> (js \<Rightarrow> error + js) option) \<Rightarrow> int \<Rightarrow> int \<Rightarrow> js \<Rightarrow> (error + js) option"
      and migs :: "int \<Rightarrow> (js \<Rightarrow> error + js) option" and target v :: int and st :: js
      and y :: "error + js"
    assume IH: "\<And>migs target v st y. f migs target v st = Some y \<Longrightarrow>
                  \<not> (plus_one v = v \<and> v \<le> target \<and> migs v = None)"
    assume step: "(if v \<le> target then
                     (case apply_migration migs v st of
                        Inl e \<Rightarrow> Some (Inl e)
                      | Inr next_state \<Rightarrow> f migs target (plus_one v) next_state)
                   else Some (Inr st)) = Some y"
    show "\<not> (plus_one v = v \<and> v \<le> target \<and> migs v = None)"
    proof
      assume s: "plus_one v = v \<and> v \<le> target \<and> migs v = None"
      with step have "f migs target v st = Some y"
        by (simp add: apply_migration_def)
      from IH [OF this] s show False by simp
    qed
  qed
  with assms show False by simp
qed

lemma apply_in_order_skips:
  "apply_in_order migs vs st = apply_in_order migs (filter (\<lambda>v. migs v \<noteq> None) vs) st"
  by (induction vs arbitrary: st) (auto split: option.splits sum.splits)

lemma migrating_read_numeric:
  assumes p: "parse stored = Some parsed"
    and x: "get_property parsed ''_version'' = Inr x"
    and v: "x = JNum v \<or> (\<not> truthy x \<and> v = 0)"
    and lo: "- 9007199254740992 \<le> v"
    and lt: "v < version mopts"
    and hi: "version mopts < 9007199254740992"
  shows "migrating_read parse str2num mopts stored =
           (case apply_in_order (migrations mopts) [v + 1..version mopts] parsed of
              Inl e \<Rightarrow> Some (Inl e)
            | Inr st \<Rightarrow> (case set_property st ''_version'' (JNum (version mopts)) of
                           Inl e \<Rightarrow> Some (Inl e)
                         | Inr stamped \<Rightarrow> Some (Inr (item_of (JSON_stringify stamped)))))"
proof -
  have sv: "storedVersion_of parsed = Inr (JNum v)"
    using x v by (auto simp add: storedVersion_of_def)
  have p1: "plus_one v = v + 1"
    using lo lt hi by (simp add: plus_one_exact)
  have loop: "migrate_loop (migrations mopts) (version mopts) (v + 1) parsed =
                Some (apply_in_order (migrations mopts) [v + 1..version mopts] parsed)"
    using lo hi by (simp add: migrate_loop_upto)
  show ?thesis
    using lt by (simp add: migrating_read_def p sv less_than_version_def migrate_from_def p1 loop
        split: sum.splits)
qed

text \<open>
  C4, as amended. Reading through the migrating layer a stored JSON payload whose
  version \<open>v\<close> (the number in \<^verbatim>\<open>_version\<close>, or 0 when the field is absent or holds
  another falsy value) is below the configured version, both within the integers that
  a double counts exactly (\<open>-2^53 \<le> v\<close> and the configured version below \<open>2^53\<close>): the read
  returns; it applies the migrations of the versions \<open>v + 1\<close> up to the configured one in
  strictly increasing order, which is the same as applying only those that exist in
  that order (a missing one is skipped and blocks nothing); when they yield an object,
  the result is that object with \<^verbatim>\<open>_version\<close> set to the configured version, in
  serialized form. If a migration throws, or the final state cannot take the property,
  the stored blob is returned (C3). The scenario of the specification is evaluated
  after the theorem, with a second one where two versions have no migration.
\<close>

theorem migrating_getItem_upgrades_in_order:
  assumes "getItem inner s key = Some (Inr (Value stored))"
    and "parse stored = Some parsed"
    and "get_property parsed ''_version'' = Inr x"
    and "x = JNum v \<or> (\<not> truthy x \<and> v = 0)"
    and "- 9007199254740992 \<le> v"
    and "v < version mopts"
    and "version mopts < 9007199254740992"
  shows "getItem (createMigratingStorage parse str2num inner mopts) s key =
           (case apply_in_order (migrations mopts) [v + 1..version mopts] parsed of
              Inl e \<Rightarrow> Some (Inr (Value stored))
            | Inr st \<Rightarrow> (case set_property st ''_version'' (JNum (version mopts)) of
                           Inl e \<Rightarrow> Some (Inr (Value stored))
                         | Inr stamped \<Rightarrow> Some (Inr (item_of (JSON_stringify stamped)))))
       \<and> (\<forall>kvs'. apply_in_order (migrations mopts) [v + 1..version mopts] parsed = Inr (JObj kvs') \<longrightarrow>
            getItem (createMigratingStorage parse str2num inner mopts) s key =
              Some (Inr (item_of (JSON_stringify (JObj (obj_set ''_version'' (JNum (version mopts)) kvs')))))
            \<and> obj_get (obj_set ''_version'' (JNum (version mopts)) kvs') ''_version'' = JNum (version mopts))
       \<and> apply_in_order (migrations mopts) [v + 1..version mopts] parsed =
           apply_in_order (migrations mopts)
             (filter (\<lambda>n. migrations mopts n \<noteq> None) [v + 1..version mopts]) parsed
       \<and> sorted_wrt (<) [v + 1..version mopts]
       \<and> getItem (createMigratingStorage parse str2num inner mopts) s key \<noteq> None"
proof -
  have g: "getItem (createMigratingStorage parse str2num inner mopts) s key =
           (case apply_in_order (migrations mopts) [v + 1..version mopts] parsed of
              Inl e \<Rightarrow> Some (Inr (Value stored))
            | Inr st \<Rightarrow> (case set_property st ''_version'' (JNum (version mopts)) of
                           Inl e \<Rightarrow> Some (Inr (Value stored))
                         | Inr stamped \<Rightarrow> Some (Inr (item_of (JSON_stringify stamped)))))"
    using assms(1) migrating_read_numeric [where parse = parse and stored = stored and parsed = parsed
        and x = x and v = v and mopts = mopts and ?str2num = str2num, OF assms(2-7)]
    by (simp add: createMigratingStorage_def split: sum.splits)
  have o: "\<forall>kvs'. apply_in_order (migrations mopts) [v + 1..version mopts] parsed = Inr (JObj kvs') \<longrightarrow>
            getItem (createMigratingStorage parse str2num inner mopts) s key =
              Some (Inr (item_of (JSON_stringify (JObj (obj_set ''_version'' (JNum (version mopts)) kvs')))))
            \<and> obj_get (obj_set ''_version'' (JNum (version mopts)) kvs') ''_version'' = JNum (version mopts)"
    using g by (simp add: obj_get_obj_set set_property_version del: set_property.simps)
  have k: "apply_in_order (migrations mopts) [v + 1..version mopts] parsed =
           apply_in_order (migrations mopts)
             (filter (\<lambda>n. migrations mopts n \<noteq> None) [v + 1..version mopts]) parsed"
    by (rule apply_in_order_skips)
  have srt: "sorted_wrt (<) [v + 1..version mopts]"
    by (simp add: sorted_wrt_upto)
  have ret: "getItem (createMigratingStorage parse str2num inner mopts) s key \<noteq> None"
    using g by (simp split: sum.splits)
  from g o k srt ret show ?thesis by blast
qed

theorem migrating_getItem_upgrades_in_order_witness:
  \<open>(let w = \<lparr>localStorage = Some [''app'' \<mapsto> ''{"count":5}'', ''old'' \<mapsto> ''{"count":5,"_version":1}'',
                                  ''nul'' \<mapsto> ''{"count":5,"_version":null}'']\<rparr> in
     getItem localStorage_adapter w ''app'' = Some (Inr (Value ''{"count":5}''))
     \<and> JSON_parse ''{"count":5}'' = Some (JObj [(''count'', JNum 5)])
     \<and> get_property (JObj [(''count'', JNum 5)]) ''_version'' = Inr JUndefined
     \<and> \<not> truthy JUndefined
     \<and> (0::int) < version \<lparr>version = 2, migrations = scenario_migrations\<rparr>
     \<and> apply_in_order scenario_migrations [0 + 1..2] (JObj [(''count'', JNum 5)])
           = Inr (JObj [(''total'', JNum 5), (''createdAt'', JNum 1700000000000)])
     \<and> getItem (createMigratingStorage JSON_parse StringToNumber localStorage_adapter
            \<lparr>version = 2, migrations = scenario_migrations\<rparr>) w ''app''
           = Some (Inr (Value ''{"total":5,"createdAt":1700000000000,"_version":2}''))
     \<and> getItem localStorage_adapter w ''old'' = Some (Inr (Value ''{"count":5,"_version":1}''))
     \<and> JSON_parse ''{"count":5,"_version":1}'' = Some (JObj [(''count'', JNum 5), (''_version'', JNum 1)])
     \<and> get_property (JObj [(''count'', JNum 5), (''_version'', JNum 1)]) ''_version'' = Inr (JNum 1)
     \<and> (1::int) < version \<lparr>version = 4, migrations = scenario_migrations\<rparr>
     \<and> apply_in_order scenario_migrations [1 + 1..4] (JObj [(''count'', JNum 5), (''_version'', JNum 1)])
           = Inr (JObj [(''total'', JNum 5), (''_version'', JNum 1)])
     \<and> getItem (createMigratingStorage JSON_parse StringToNumber localStorage_adapter
            \<lparr>version = 4, migrations = scenario_migrations\<rparr>) w ''old''
           = Some (Inr (Value ''{"total":5,"_version":4}''))
     \<and> getItem (createMigratingStorage JSON_parse StringToNumber localStorage_adapter
            \<lparr>version = 1, migrations = scenario_migrations\<rparr>) w ''nul''
           = Some (Inr (Value ''{"count":5,"_version":1,"createdAt":1700000000000}'')))\<close>
proof -
  let ?w = \<open>\<lparr>localStorage = Some [''app'' \<mapsto> ''{"count":5}'', ''old'' \<mapsto> ''{"count":5,"_version":1}'',
                                  ''nul'' \<mapsto> ''{"count":5,"_version":null}'']\<rparr>\<close>
  let ?m1 = "\<lparr>version = 1, migrations = scenario_migrations\<rparr>"
  let ?m2 = "\<lparr>version = 2, migrations = scenario_migrations\<rparr>"
  let ?m4 = "\<lparr>version = 4, migrations = scenario_migrations\<rparr>"
  have a1: \<open>getItem localStorage_adapter ?w ''app'' = Some (Inr (Value ''{"count":5}''))\<close>
    by (simp add: localStorage_adapter_def)
  have a2: \<open>JSON_parse ''{"count":5}'' = Some (JObj [(''count'', JNum 5)])\<close>
    by code_simp
  have a3: "get_property (JObj [(''count'', JNum 5)]) ''_version'' = Inr JUndefined"
    by code_simp
  have a3': "JUndefined = JNum 0 \<or> (\<not> truthy JUndefined \<and> (0::int) = 0)"
    by simp
  have a4: "(0::int) < version ?m2" "version ?m2 < 9007199254740992" "- 9007199254740992 \<le> (0::int)"
    by simp_all
  have a5: "apply_in_order (migrations ?m2) [0 + 1..version ?m2] (JObj [(''count'', JNum 5)])
              = Inr (JObj [(''total'', JNum 5), (''createdAt'', JNum 1700000000000)])"
    by code_simp
  have a6: \<open>item_of (JSON_stringify (JObj (obj_set ''_version'' (JNum (version ?m2))
               [(''total'', JNum 5), (''createdAt'', JNum 1700000000000)])))
             = Value ''{"total":5,"createdAt":1700000000000,"_version":2}''\<close>
    by code_simp
  have a: \<open>getItem (createMigratingStorage JSON_parse StringToNumber localStorage_adapter ?m2) ?w ''app''
           = Some (Inr (Value ''{"total":5,"createdAt":1700000000000,"_version":2}''))\<close>
    using migrating_getItem_upgrades_in_order [where inner = localStorage_adapter and s = ?w
        and parse = JSON_parse and ?str2num = StringToNumber and mopts = ?m2 and v = 0,
        OF a1 a2 a3 a3' a4(3) a4(1) a4(2), THEN conjunct2, THEN conjunct1, rule_format, OF a5, THEN conjunct1]
    by (simp only: a6)
  have b1: \<open>getItem localStorage_adapter ?w ''old'' = Some (Inr (Value ''{"count":5,"_version":1}''))\<close>
    by (simp add: localStorage_adapter_def)
  have b2: \<open>JSON_parse ''{"count":5,"_version":1}'' = Some (JObj [(''count'', JNum 5), (''_version'', JNum 1)])\<close>
    by code_simp
  have b3: "get_property (JObj [(''count'', JNum 5), (''_version'', JNum 1)]) ''_version'' = Inr (JNum 1)"
    by code_simp
  have b3': "JNum 1 = JNum 1 \<or> (\<not> truthy (JNum 1) \<and> (1::int) = 0)"
    by simp
  have b4: "(1::int) < version ?m4" "version ?m4 < 9007199254740992" "- 9007199254740992 \<le> (1::int)"
    by simp_all
  have b5: "apply_in_order (migrations ?m4) [1 + 1..version ?m4] (JObj [(''count'', JNum 5), (''_version'', JNum 1)])
              = Inr (JObj [(''total'', JNum 5), (''_version'', JNum 1)])"
    by code_simp
  have b6: \<open>item_of (JSON_stringify (JObj (obj_set ''_version'' (JNum (version ?m4))
               [(''total'', JNum 5), (''_version'', JNum 1)])))
             = Value ''{"total":5,"_version":4}''\<close>
    by code_simp
  have b: \<open>getItem (createMigratingStorage JSON_parse StringToNumber localStorage_adapter ?m4) ?w ''old''
           = Some (Inr (Value ''{"total":5,"_version":4}''))\<close>
    using migrating_getItem_upgrades_in_order [where inner = localStorage_adapter and s = ?w
        and parse = JSON_parse and ?str2num = StringToNumber and mopts = ?m4 and v = 1,
        OF b1 b2 b3 b3' b4(3) b4(1) b4(2), THEN conjunct2, THEN conjunct1, rule_format, OF b5, THEN conjunct1]
    by (simp only: b6)
  have c1: \<open>getItem localStorage_adapter ?w ''nul'' = Some (Inr (Value ''{"count":5,"_version":null}''))\<close>
    by (simp add: localStorage_adapter_def)
  have c2: \<open>JSON_parse ''{"count":5,"_version":null}'' = Some (JObj [(''count'', JNum 5), (''_version'', JNull)])\<close>
    by code_simp
  have c3: "get_property (JObj [(''count'', JNum 5), (''_version'', JNull)]) ''_version'' = Inr JNull"
    by code_simp
  have c3': "JNull = JNum 0 \<or> (\<not> truthy JNull \<and> (0::int) = 0)"
    by simp
  have c4: "(0::int) < version ?m1" "version ?m1 < 9007199254740992"
    by simp_all
  have c5: "apply_in_order (migrations ?m1) [0 + 1..version ?m1] (JObj [(''count'', JNum 5), (''_version'', JNull)])
              = Inr (JObj [(''count'', JNum 5), (''_version'', JNull), (''createdAt'', JNum 1700000000000)])"
    by code_simp
  have c6: \<open>item_of (JSON_stringify (JObj (obj_set ''_version'' (JNum (version ?m1))
               [(''count'', JNum 5), (''_version'', JNull), (''createdAt'', JNum 1700000000000)])))
             = Value ''{"count":5,"_version":1,"createdAt":1700000000000}''\<close>
    by code_simp
  have c: \<open>getItem (createMigratingStorage JSON_parse StringToNumber localStorage_adapter ?m1) ?w ''nul''
           = Some (Inr (Value ''{"count":5,"_version":1,"createdAt":1700000000000}''))\<close>
    using migrating_getItem_upgrades_in_order [where inner = localStorage_adapter and s = ?w
        and parse = JSON_parse and ?str2num = StringToNumber and mopts = ?m1 and v = 0,
        OF c1 c2 c3 c3' a4(3) c4(1) c4(2), THEN conjunct2, THEN conjunct1, rule_format, OF c5, THEN conjunct1]
    by (simp only: c6)
  show ?thesis
    unfolding Let_def using a1 a2 a3 a4 a5 a b1 b2 b3 b4 b5 b c by simp
qed

text \<open>
  C4 as stated fails for a stored version that a double does not count on from: over a
  payload stored with \<^verbatim>\<open>_version\<close> \<open>2^53\<close>, a read through a layer configured with version
  \<open>2^53 + 2\<close> does not return. The loop starts at \<open>2^53 + 1\<close>, which rounds to \<open>2^53\<close>, and
  its increment never advances.
\<close>

theorem migrating_getItem_large_version_diverges:
  \<open>JSON_parse ''{"_version":9007199254740992}'' = Some (JObj [(''_version'', JNum 9007199254740992)])
   \<and> (9007199254740992::int) < 9007199254740994
   \<and> plus_one 9007199254740992 = 9007199254740992
   \<and> getItem (createMigratingStorage JSON_parse StringToNumber localStorage_adapter
              \<lparr>version = 9007199254740994, migrations = Map.empty\<rparr>)
        \<lparr>localStorage = Some [''app'' \<mapsto> ''{"_version":9007199254740992}'']\<rparr> ''app''
      = None\<close>
proof -
  have p: \<open>JSON_parse ''{"_version":9007199254740992}'' = Some (JObj [(''_version'', JNum 9007199254740992)])\<close>
    by code_simp
  have s: "plus_one 9007199254740992 = 9007199254740992"
    by code_simp
  have sv: "storedVersion_of (JObj [(''_version'', JNum 9007199254740992)]) = Inr (JNum 9007199254740992)"
    by code_simp
  have l: "migrate_loop Map.empty 9007199254740994 9007199254740992 (JObj [(''_version'', JNum 9007199254740992)]) = None"
    by (rule migrate_loop_stuck) (simp_all add: s)
  have r: \<open>migrating_read JSON_parse StringToNumber \<lparr>version = 9007199254740994, migrations = Map.empty\<rparr>
             ''{"_version":9007199254740992}'' = None\<close>
    by (simp add: migrating_read_def p sv less_than_version_def migrate_from_def s l)
  have g: \<open>getItem (createMigratingStorage JSON_parse StringToNumber localStorage_adapter
              \<lparr>version = 9007199254740994, migrations = Map.empty\<rparr>)
        \<lparr>localStorage = Some [''app'' \<mapsto> ''{"_version":9007199254740992}'']\<rparr> ''app''
      = None\<close>
    by (simp add: createMigratingStorage_def localStorage_adapter_def r)
  from p s g show ?thesis by simp
qed

text \<open>
  C1, as amended. A write through the migrating layer of a value that parses to a JSON
  object hands the inner storage that object with \<^verbatim>\<open>_version\<close> set to the configured
  version (and the raw value if the inner write of it throws). The layer does not read
  what is stored under the key: on \<^verbatim>\<open>localStorage\<close> the new entry is the stamped
  object whatever the entry was before. So the version written is at least the stored
  one exactly when the configured version is.
\<close>

theorem migrating_setItem_stamps_configured_version:
  assumes "parse val = Some (JObj kvs)"
  shows "setItem (createMigratingStorage parse str2num inner mopts) s key val =
           (case setItem inner s key
                   (String_of (JSON_stringify (JObj (obj_set ''_version'' (JNum (version mopts)) kvs)))) of
              Inr s' \<Rightarrow> Inr s'
            | Inl e \<Rightarrow> setItem inner s key val)
       \<and> obj_get (obj_set ''_version'' (JNum (version mopts)) kvs) ''_version'' = JNum (version mopts)
       \<and> (\<forall>m. localStorage w = Some m \<longrightarrow>
            setItem (createMigratingStorage parse str2num localStorage_adapter mopts) w key val =
              Inr (w\<lparr>localStorage := Some (m(key \<mapsto>
                String_of (JSON_stringify (JObj (obj_set ''_version'' (JNum (version mopts)) kvs)))))\<rparr>))"
  using assms
  by (simp add: createMigratingStorage_def obj_get_obj_set localStorage_adapter_def
      set_property_version del: set_property.simps)

theorem migrating_setItem_stamps_configured_version_witness:
  \<open>JSON_parse ''{"a":1}'' = Some (JObj [(''a'', JNum 1)])
   \<and> setItem (createMigratingStorage JSON_parse StringToNumber localStorage_adapter
              \<lparr>version = 7, migrations = Map.empty\<rparr>)
        \<lparr>localStorage = Some [''app'' \<mapsto> ''{"_version":5}'']\<rparr> ''app'' ''{"a":1}''
      = Inr \<lparr>localStorage = Some [''app'' \<mapsto> ''{"a":1,"_version":7}'']\<rparr>\<close>
proof -
  let ?w = \<open>\<lparr>localStorage = Some [''app'' \<mapsto> ''{"_version":5}'']\<rparr>\<close>
  let ?m = "\<lparr>version = 7, migrations = Map.empty\<rparr>"
  have p: \<open>JSON_parse ''{"a":1}'' = Some (JObj [(''a'', JNum 1)])\<close>
    by code_simp
  have q: \<open>String_of (JSON_stringify (JObj (obj_set ''_version'' (JNum 7) [(''a'', JNum 1)]))) = ''{"a":1,"_version":7}''\<close>
    by code_simp
  have l: \<open>localStorage ?w = Some [''app'' \<mapsto> ''{"_version":5}'']\<close>
    by simp
  have \<open>setItem (createMigratingStorage JSON_parse StringToNumber localStorage_adapter ?m) ?w ''app'' ''{"a":1}''
      = Inr (?w\<lparr>localStorage := Some ([''app'' \<mapsto> ''{"_version":5}''](''app'' \<mapsto>
                String_of (JSON_stringify (JObj (obj_set ''_version'' (JNum (version ?m)) [(''a'', JNum 1)])))))\<rparr>)\<close>
    by (rule migrating_setItem_stamps_configured_version [where parse = JSON_parse and mopts = ?m
         and ?str2num = StringToNumber, OF p, THEN conjunct2, THEN conjunct2, rule_format, OF l])
  then show ?thesis
    using p by (simp del: JSON_stringify.simps add: q)
qed

text \<open>
  C1 as stated fails: over a payload stored with \<^verbatim>\<open>_version\<close> 5, a write through a
  layer configured with version 2 stores \<^verbatim>\<open>_version\<close> 2.
\<close>

theorem migrating_setItem_lowers_stored_version:
  \<open>JSON_parse ''{"_version":5}'' = Some (JObj [(''_version'', JNum 5)])
   \<and> setItem (createMigratingStorage JSON_parse StringToNumber localStorage_adapter
              \<lparr>version = 2, migrations = Map.empty\<rparr>)
        \<lparr>localStorage = Some [''app'' \<mapsto> ''{"_version":5}'']\<rparr> ''app'' ''{"a":1}''
      = Inr \<lparr>localStorage = Some [''app'' \<mapsto> ''{"a":1,"_version":2}'']\<rparr>
   \<and> JSON_parse ''{"a":1,"_version":2}'' = Some (JObj [(''a'', JNum 1), (''_version'', JNum 2)])
   \<and> obj_get [(''a'', JNum 1), (''_version'', JNum 2)] ''_version'' = JNum 2
   \<and> \<not> (2::int) \<ge> 5\<close>
proof -
  have p1: \<open>JSON_parse ''{"_version":5}'' = Some (JObj [(''_version'', JNum 5)])\<close>
    by code_simp
  have p2: \<open>JSON_parse ''{"a":1}'' = Some (JObj [(''a'', JNum 1)])\<close>
    by code_simp
  have p3: \<open>JSON_parse ''{"a":1,"_version":2}'' = Some (JObj [(''a'', JNum 1), (''_version'', JNum 2)])\<close>
    by code_simp
  have p4: \<open>String_of (JSON_stringify (JObj (obj_set ''_version'' (JNum 2) [(''a'', JNum 1)]))) = ''{"a":1,"_version":2}''\<close>
    by code_simp
  have s: \<open>setItem (createMigratingStorage JSON_parse StringToNumber localStorage_adapter
              \<lparr>version = 2, migrations = Map.empty\<rparr>)
        \<lparr>localStorage = Some [''app'' \<mapsto> ''{"_version":5}'']\<rparr> ''app'' ''{"a":1}''
      = Inr \<lparr>localStorage = Some [''app'' \<mapsto> ''{"a":1,"_version":2}'']\<rparr>\<close>
    by (simp del: JSON_stringify.simps set_property.simps
          add: createMigratingStorage_def localStorage_adapter_def set_property_version p2 p4)
  show ?thesis
    using p1 p3 s by simp
qed

subsection \<open>The conflict resolver\<close>

text \<open>
  C5. Whatever the resolver's strategy, custom handler and merge function (they may
  even throw when called), for two states with the same serialization
  \<open>resolveWithResult\<close> returns the local state with \<open>hadConflict = False\<close>, and
  \<open>resolve\<close> returns the local state; in particular for a state against itself. The
  result does not depend on the handlers, so none is called.
\<close>

theorem resolve_identical_states_no_conflict:
  "(JSON_stringify (JObj localState) = JSON_stringify (JObj remoteState) \<longrightarrow>
      resolveWithResult date_parse now r localState remoteState =
        Inr \<lparr>state = localState, hadConflict = False, strategy = LastWriteWins, timestamp = now\<rparr>
      \<and> resolve date_parse now r localState remoteState = Inr localState)
   \<and> resolveWithResult date_parse now r x x =
        Inr \<lparr>state = x, hadConflict = False, strategy = LastWriteWins, timestamp = now\<rparr>
   \<and> resolve date_parse now r x x = Inr x"
  by (simp add: resolveWithResult_def resolve_def)

theorem resolve_identical_states_no_conflict_witness:
  "(let localState = [(''a'', JNum 1), (''draft'', JUndefined)];
        remoteState = [(''a'', JNum 1)];
        r = setStrategy (createConflictResolver
              \<lparr>SyncConflictOptions.strategy = Merge, onConflict = Some throwing_handler,
               mergeStrategy = Some throwing_handler, ignoreKeys = None, forceLWWKeys = None,
               timestampKey = None\<rparr>) Custom
    in JSON_stringify (JObj localState) = JSON_stringify (JObj remoteState)
     \<and> resolveWithResult Map.empty 42 r localState remoteState =
         Inr \<lparr>state = localState, hadConflict = False, strategy = LastWriteWins, timestamp = 42\<rparr>
     \<and> resolve Map.empty 42 r localState remoteState = Inr localState
     \<and> resolve Map.empty 42 r [(''a'', JNum 2)] remoteState = Inl (Error ''handler called''))"
proof -
  let ?l = "[(''a'', JNum 1), (''draft'', JUndefined)]"
  let ?r = "[(''a'', JNum 1)]"
  let ?res = "setStrategy (createConflictResolver
              \<lparr>SyncConflictOptions.strategy = Merge, onConflict = Some throwing_handler,
               mergeStrategy = Some throwing_handler, ignoreKeys = None, forceLWWKeys = None,
               timestampKey = None\<rparr>) Custom"
  have h: "JSON_stringify (JObj ?l) = JSON_stringify (JObj ?r)"
    by simp
  have c: "resolveWithResult Map.empty 42 ?res ?l ?r =
             Inr \<lparr>state = ?l, hadConflict = False, strategy = LastWriteWins, timestamp = 42\<rparr>
           \<and> resolve Map.empty 42 ?res ?l ?r = Inr ?l"
    by (rule resolve_identical_states_no_conflict [THEN conjunct1, rule_format, OF h])
  have d: "resolve Map.empty 42 ?res [(''a'', JNum 2)] ?r = Inl (Error ''handler called'')"
    by code_simp
  show ?thesis
    unfolding Let_def using h c d by blast
qed




subsection \<open>The merge strategy\<close>












text \<open>
  C6 fails on a key that names a member of \<^verbatim>\<open>Object.prototype\<close>. The local state
  \<^verbatim>\<open>{toString: 'x'}\<close> has the key and the remote state \<^verbatim>\<open>{}\<close> does not define it, but
  \<^verbatim>\<open>remoteState[key]\<close> reads the inherited function, which is not \<^verbatim>\<open>undefined\<close>, and the
  merge assigns it over the local value. The scenario of the specification, whose keys
  name no inherited member, evaluates to the stated object; for such keys the rules of
  the claim are those of \<open>mergeStates_own_key\<close>.
\<close>

theorem mergeStates_assigns_inherited_member:
  "''toString'' \<notin> set (Object_keys ([] :: state))
   \<and> mergeStates None [(''toString'', JStr ''x'')] [] = Inr [(''toString'', JFunction ''toString'')]
   \<and> obj_get [(''toString'', JFunction ''toString'')] ''toString'' \<noteq> JStr ''x''
   \<and> mergeStates None [(''a'', JNum 1), (''b'', JObj [(''c'', JNum 2)])]
                        [(''a'', JNum 2), (''b'', JObj [(''d'', JNum 3)]), (''e'', JNum 4)]
       = Inr [(''a'', JNum 2), (''b'', JObj [(''c'', JNum 2), (''d'', JNum 3)]), (''e'', JNum 4)]"
  by code_simp



subsection \<open>Encryption\<close>

lemma js_get_field:
  "key \<in> set field_names \<Longrightarrow> js_get kvs key = Inr (obj_get kvs key)"
  by (auto simp add: field_names_def js_get_def js_read_def Object_prototype_methods_def obj_get_absent)

lemma encrypt_returns:
  assumes "secret_v \<noteq> []"
    and "deriveKey crypto secret_v (JStr (string_or (salt options) random_salt))
           (number_or (iterations options) DEFAULT_iterations 10000)
           (number_or (keyLength options) DEFAULT_keyLength 256) = Inr key"
    and "AES_encrypt crypto data key (string_or (iv options) random_iv) = Inr ciphertext"
  shows "encrypt crypto random_salt random_iv data secret_v options =
     Inr (String_of (JSON_stringify (envelope (string_or (salt options) random_salt)
            (string_or (iv options) random_iv) ciphertext
            (case algorithm options of None \<Rightarrow> AES_GCM | Some a \<Rightarrow> a))))"
  using assms by (simp add: encrypt_def Let_def)

lemma decrypt_envelope:
  assumes "secret_v \<noteq> []"
    and "parse blob = Some (envelope salt_v iv_v ciphertext AES_GCM)"
    and "deriveKey crypto secret_v (JStr salt_v) DEFAULT_iterations DEFAULT_keyLength = Inr key"
    and "AES_decrypt crypto (JStr ciphertext) key (JStr iv_v) = Inr data"
  shows "decrypt parse crypto blob secret_v =
           (if data = [] then Inl (Error ''Failed to decrypt data. Check your secret key.'') else Inr data)"
  using assms
  by (simp add: decrypt_def decrypt_try_def envelope_def algorithm_name_def js_get_field
      field_names_def)

text \<open>
  C2, as amended. For a non-empty secret and options that leave the algorithm, the
  iterations and the key length at their defaults, where the calls of the library
  return (the key derivation a key, the encryption a ciphertext), \<^verbatim>\<open>JSON.parse\<close> reads
  back the envelope that \<open>encrypt\<close> serializes and the cipher decrypts under the same
  key and iv what it encrypted: \<open>encrypt\<close> returns a blob, and \<open>decrypt\<close> of that blob
  returns the plaintext when the plaintext is not empty. For the empty plaintext
  \<open>decrypt\<close> throws: the decrypted text is empty, which \<open>decrypt\<close> takes for a failed
  decryption.
\<close>

theorem decrypt_encrypt_roundtrip:
  assumes "secret_v \<noteq> []"
    and "algorithm options = None \<or> algorithm options = Some AES_GCM"
    and "number_or (iterations options) DEFAULT_iterations 10000 = DEFAULT_iterations"
    and "number_or (keyLength options) DEFAULT_keyLength 256 = DEFAULT_keyLength"
    and "salt_v = string_or (salt options) random_salt"
    and "iv_v = string_or (iv options) random_iv"
    and "deriveKey crypto secret_v (JStr salt_v) DEFAULT_iterations DEFAULT_keyLength = Inr key"
    and "AES_encrypt crypto data key iv_v = Inr ciphertext"
    and "parse (String_of (JSON_stringify (envelope salt_v iv_v ciphertext AES_GCM)))
           = Some (envelope salt_v iv_v ciphertext AES_GCM)"
    and "AES_decrypt crypto (JStr ciphertext) key (JStr iv_v) = Inr data"
  shows "\<exists>blob. encrypt crypto random_salt random_iv data secret_v options = Inr blob
           \<and> decrypt parse crypto blob secret_v =
               (if data = [] then Inl (Error ''Failed to decrypt data. Check your secret key.'')
                else Inr data)"
proof -
  have alg: "(case algorithm options of None \<Rightarrow> AES_GCM | Some a \<Rightarrow> a) = AES_GCM"
    using assms(2) by auto
  have e: "encrypt crypto random_salt random_iv data secret_v options =
             Inr (String_of (JSON_stringify (envelope salt_v iv_v ciphertext AES_GCM)))"
    using encrypt_returns [where crypto = crypto and options = options and random_salt = random_salt
        and random_iv = random_iv and data = data and key = key and ciphertext = ciphertext,
        OF assms(1)] assms(3-8)
    by (simp add: alg)
  have d: "decrypt parse crypto
             (String_of (JSON_stringify (envelope salt_v iv_v ciphertext AES_GCM))) secret_v =
           (if data = [] then Inl (Error ''Failed to decrypt data. Check your secret key.'') else Inr data)"
    by (rule decrypt_envelope [where parse = parse and crypto = crypto and salt_v = salt_v
          and iv_v = iv_v and ciphertext = ciphertext and key = key,
          OF assms(1) assms(9) assms(7) assms(10)])
  from e d show ?thesis by blast
qed

theorem decrypt_encrypt_roundtrip_witness:
  \<open>''secret'' \<noteq> []
   \<and> encrypt toy_crypto ''a1b2'' ''c3d4'' ''hello'' ''secret'' no_options
       = Inr ''{"salt":"a1b2","iv":"c3d4","ciphertext":"secret/a1b2:hello","algorithm":"AES-GCM"}''
   \<and> decrypt JSON_parse toy_crypto
        ''{"salt":"a1b2","iv":"c3d4","ciphertext":"secret/a1b2:hello","algorithm":"AES-GCM"}'' ''secret''
       = Inr ''hello''\<close>
proof -
  have h1: "''secret'' \<noteq> []" by simp
  have h2: "algorithm no_options = None \<or> algorithm no_options = Some AES_GCM"
    by (simp add: no_options_def)
  have h3: "number_or (iterations no_options) DEFAULT_iterations 10000 = DEFAULT_iterations"
    by (simp add: no_options_def number_or_def DEFAULT_iterations_def)
  have h4: "number_or (keyLength no_options) DEFAULT_keyLength 256 = DEFAULT_keyLength"
    by (simp add: no_options_def number_or_def DEFAULT_keyLength_def)
  have h5: "''a1b2'' = string_or (salt no_options) ''a1b2''"
    by (simp add: no_options_def string_or_def)
  have h6: "''c3d4'' = string_or (iv no_options) ''c3d4''"
    by (simp add: no_options_def string_or_def)
  have h7: "deriveKey toy_crypto ''secret'' (JStr ''a1b2'') DEFAULT_iterations DEFAULT_keyLength = Inr ''secret/a1b2''"
    by code_simp
  have h8: "AES_encrypt toy_crypto ''hello'' ''secret/a1b2'' ''c3d4'' = Inr ''secret/a1b2:hello''"
    by code_simp
  have h9: "JSON_parse (String_of (JSON_stringify (envelope ''a1b2'' ''c3d4'' ''secret/a1b2:hello'' AES_GCM)))
           = Some (envelope ''a1b2'' ''c3d4'' ''secret/a1b2:hello'' AES_GCM)"
    by code_simp
  have h10: "AES_decrypt toy_crypto (JStr ''secret/a1b2:hello'') ''secret/a1b2'' (JStr ''c3d4'') = Inr ''hello''"
    by code_simp
  have e: \<open>encrypt toy_crypto ''a1b2'' ''c3d4'' ''hello'' ''secret'' no_options
       = Inr ''{"salt":"a1b2","iv":"c3d4","ciphertext":"secret/a1b2:hello","algorithm":"AES-GCM"}''\<close>
    by code_simp
  from decrypt_encrypt_roundtrip [where parse = JSON_parse and crypto = toy_crypto,
      OF h1 h2 h3 h4 h5 h6 h7 h8 h9 h10]
  have \<open>decrypt JSON_parse toy_crypto
        ''{"salt":"a1b2","iv":"c3d4","ciphertext":"secret/a1b2:hello","algorithm":"AES-GCM"}'' ''secret''
       = Inr ''hello''\<close>
    by (simp add: e)
  with h1 e show ?thesis by blast
qed

text \<open>
  C2 as stated fails at the empty plaintext: \<open>encrypt\<close> returns an envelope, the cipher
  decrypts it to the empty text, and \<open>decrypt\<close> throws.
\<close>

theorem decrypt_encrypt_empty_plaintext_fails:
  \<open>encrypt toy_crypto ''a1b2'' ''c3d4'' [] ''secret'' no_options
     = Inr ''{"salt":"a1b2","iv":"c3d4","ciphertext":"secret/a1b2:","algorithm":"AES-GCM"}''
   \<and> AES_encrypt toy_crypto [] ''secret/a1b2'' ''c3d4'' = Inr ''secret/a1b2:''
   \<and> AES_decrypt toy_crypto (JStr ''secret/a1b2:'') ''secret/a1b2'' (JStr ''c3d4'') = Inr []
   \<and> decrypt JSON_parse toy_crypto
        ''{"salt":"a1b2","iv":"c3d4","ciphertext":"secret/a1b2:","algorithm":"AES-GCM"}'' ''secret''
     = Inl (Error ''Failed to decrypt data. Check your secret key.'')\<close>
  by code_simp

text \<open>
  C8, as amended. \<open>encrypt\<close> throws \<^verbatim>\<open>Encryption secret is required\<close> when the secret is
  empty. With a secret that is not empty it throws exactly when one of its two calls of
  the library throws (the key derivation, or the encryption under the derived key), and
  then the error of that call. \<open>decrypt\<close> throws \<^verbatim>\<open>Encryption secret is required\<close> when
  the secret is empty; with a non-empty secret it throws \<^verbatim>\<open>Failed to decrypt data\<close>
  whenever the \<^verbatim>\<open>algorithm\<close> field of the parsed blob is not the string \<^verbatim>\<open>AES-GCM\<close> (also
  when the blob has no such field or parses to \<^verbatim>\<open>null\<close>), and whenever the decrypted text
  is empty.
\<close>

theorem encrypt_decrypt_errors:
  "(secret_v = [] \<longrightarrow>
      encrypt crypto random_salt random_iv data secret_v options = Inl (Error ''Encryption secret is required'')
      \<and> decrypt parse crypto blob secret_v = Inl (Error ''Encryption secret is required''))
   \<and> (secret_v \<noteq> [] \<longrightarrow>
        (\<forall>e. encrypt crypto random_salt random_iv data secret_v options = Inl e \<longleftrightarrow>
           deriveKey crypto secret_v (JStr (string_or (salt options) random_salt))
             (number_or (iterations options) DEFAULT_iterations 10000)
             (number_or (keyLength options) DEFAULT_keyLength 256) = Inl e
           \<or> (\<exists>key. deriveKey crypto secret_v (JStr (string_or (salt options) random_salt))
                       (number_or (iterations options) DEFAULT_iterations 10000)
                       (number_or (keyLength options) DEFAULT_keyLength 256) = Inr key
                     \<and> AES_encrypt crypto data key (string_or (iv options) random_iv) = Inl e)))
   \<and> (secret_v \<noteq> [] \<and> parse blob = Some parsed \<and> get_property parsed ''algorithm'' \<noteq> Inr (JStr ''AES-GCM'') \<longrightarrow>
        decrypt parse crypto blob secret_v = Inl (Error ''Failed to decrypt data. Check your secret key.''))
   \<and> (secret_v \<noteq> [] \<and> parse blob = Some (JObj kvs) \<and> obj_get kvs ''algorithm'' = JStr ''AES-GCM''
        \<and> deriveKey crypto secret_v (obj_get kvs ''salt'') DEFAULT_iterations DEFAULT_keyLength = Inr key
        \<and> AES_decrypt crypto (obj_get kvs ''ciphertext'') key (obj_get kvs ''iv'') = Inr [] \<longrightarrow>
        decrypt parse crypto blob secret_v = Inl (Error ''Failed to decrypt data. Check your secret key.''))"
proof (intro conjI impI allI)
  assume "secret_v = []"
  then show "encrypt crypto random_salt random_iv data secret_v options = Inl (Error ''Encryption secret is required'')"
    by (simp add: encrypt_def)
next
  assume "secret_v = []"
  then show "decrypt parse crypto blob secret_v = Inl (Error ''Encryption secret is required'')"
    by (simp add: decrypt_def)
next
  fix e
  assume "secret_v \<noteq> []"
  then show "encrypt crypto random_salt random_iv data secret_v options = Inl e \<longleftrightarrow>
           deriveKey crypto secret_v (JStr (string_or (salt options) random_salt))
             (number_or (iterations options) DEFAULT_iterations 10000)
             (number_or (keyLength options) DEFAULT_keyLength 256) = Inl e
           \<or> (\<exists>key. deriveKey crypto secret_v (JStr (string_or (salt options) random_salt))
                       (number_or (iterations options) DEFAULT_iterations 10000)
                       (number_or (keyLength options) DEFAULT_keyLength 256) = Inr key
                     \<and> AES_encrypt crypto data key (string_or (iv options) random_iv) = Inl e)"
    by (auto simp add: encrypt_def Let_def split: sum.splits)
next
  assume a: "secret_v \<noteq> [] \<and> parse blob = Some parsed \<and> get_property parsed ''algorithm'' \<noteq> Inr (JStr ''AES-GCM'')"
  then have "isl (decrypt_try parse crypto blob secret_v)"
    by (auto simp add: decrypt_try_def split: sum.splits)
  with a show "decrypt parse crypto blob secret_v = Inl (Error ''Failed to decrypt data. Check your secret key.'')"
    by (auto simp add: decrypt_def split: sum.splits)
next
  assume "secret_v \<noteq> [] \<and> parse blob = Some (JObj kvs) \<and> obj_get kvs ''algorithm'' = JStr ''AES-GCM''
        \<and> deriveKey crypto secret_v (obj_get kvs ''salt'') DEFAULT_iterations DEFAULT_keyLength = Inr key
        \<and> AES_decrypt crypto (obj_get kvs ''ciphertext'') key (obj_get kvs ''iv'') = Inr []"
  then show "decrypt parse crypto blob secret_v = Inl (Error ''Failed to decrypt data. Check your secret key.'')"
    by (simp add: decrypt_def decrypt_try_def js_get_field field_names_def)
qed

theorem encrypt_decrypt_errors_witness:
  \<open>encrypt toy_crypto ''a1b2'' ''c3d4'' ''data'' [] no_options = Inl (Error ''Encryption secret is required'')
   \<and> decrypt JSON_parse toy_crypto ''data'' [] = Inl (Error ''Encryption secret is required'')
   \<and> ''secret'' \<noteq> []
   \<and> deriveKey toy_crypto ''secret'' (JStr ''a1b2'') 10000 256 = Inr ''secret/a1b2''
   \<and> AES_encrypt toy_crypto [CHR 0xED, CHR 0xA0, CHR 0x80] ''secret/a1b2'' ''c3d4'' = Inl URIError
   \<and> encrypt toy_crypto ''a1b2'' ''c3d4'' [CHR 0xED, CHR 0xA0, CHR 0x80] ''secret'' no_options = Inl URIError
   \<and> AES_encrypt toy_crypto ''data'' ''secret/a1b2'' ''c3d4'' = Inr ''secret/a1b2:data''
   \<and> \<not> isl (encrypt toy_crypto ''a1b2'' ''c3d4'' ''data'' ''secret'' no_options)
   \<and> JSON_parse ''{"salt":"a1b2","iv":"c3d4","ciphertext":"x","algorithm":"XSalsa20"}''
       = Some (JObj [(''salt'', JStr ''a1b2''), (''iv'', JStr ''c3d4''), (''ciphertext'', JStr ''x''),
                     (''algorithm'', JStr ''XSalsa20'')])
   \<and> decrypt JSON_parse toy_crypto ''{"salt":"a1b2","iv":"c3d4","ciphertext":"x","algorithm":"XSalsa20"}'' ''secret''
       = Inl (Error ''Failed to decrypt data. Check your secret key.'')
   \<and> JSON_parse ''{"salt":"a1b2","iv":"c3d4","ciphertext":"other/a1b2:hello","algorithm":"AES-GCM"}''
       = Some (JObj [(''salt'', JStr ''a1b2''), (''iv'', JStr ''c3d4''), (''ciphertext'', JStr ''other/a1b2:hello''),
                     (''algorithm'', JStr ''AES-GCM'')])
   \<and> decrypt JSON_parse toy_crypto
         ''{"salt":"a1b2","iv":"c3d4","ciphertext":"other/a1b2:hello","algorithm":"AES-GCM"}'' ''secret''
       = Inl (Error ''Failed to decrypt data. Check your secret key.'')\<close>
proof -
  let ?x = "[(''salt'', JStr ''a1b2''), (''iv'', JStr ''c3d4''), (''ciphertext'', JStr ''x''),
             (''algorithm'', JStr ''XSalsa20'')]"
  let ?w = "[(''salt'', JStr ''a1b2''), (''iv'', JStr ''c3d4''), (''ciphertext'', JStr ''other/a1b2:hello''),
             (''algorithm'', JStr ''AES-GCM'')]"
  let ?lone = "[CHR 0xED, CHR 0xA0, CHR 0x80]"
  have e: "([] :: string) = []" by simp
  have n: "''secret'' \<noteq> []" by simp
  have o: "string_or (salt no_options) ''a1b2'' = ''a1b2''" "string_or (iv no_options) ''c3d4'' = ''c3d4''"
    "number_or (iterations no_options) DEFAULT_iterations 10000 = 10000"
    "number_or (keyLength no_options) DEFAULT_keyLength 256 = 256"
    by (simp_all add: no_options_def string_or_def number_or_def DEFAULT_iterations_def DEFAULT_keyLength_def)
  have dk: "deriveKey toy_crypto ''secret'' (JStr ''a1b2'') 10000 256 = Inr ''secret/a1b2''"
    by code_simp
  have dk': "deriveKey toy_crypto ''secret'' (obj_get ?w ''salt'') DEFAULT_iterations DEFAULT_keyLength = Inr ''secret/a1b2''"
    by code_simp
  have ae: "AES_encrypt toy_crypto ?lone ''secret/a1b2'' ''c3d4'' = Inl URIError"
    by code_simp
  have ad: "AES_encrypt toy_crypto ''data'' ''secret/a1b2'' ''c3d4'' = Inr ''secret/a1b2:data''"
    by code_simp
  have px: \<open>JSON_parse ''{"salt":"a1b2","iv":"c3d4","ciphertext":"x","algorithm":"XSalsa20"}'' = Some (JObj ?x)\<close>
    by code_simp
  have ax: "get_property (JObj ?x) ''algorithm'' \<noteq> Inr (JStr ''AES-GCM'')"
    by code_simp
  have pw: \<open>JSON_parse ''{"salt":"a1b2","iv":"c3d4","ciphertext":"other/a1b2:hello","algorithm":"AES-GCM"}''
       = Some (JObj ?w)\<close>
    by code_simp
  have aw: "obj_get ?w ''algorithm'' = JStr ''AES-GCM''"
    by simp
  have dw: "AES_decrypt toy_crypto (obj_get ?w ''ciphertext'') ''secret/a1b2'' (obj_get ?w ''iv'') = Inr []"
    by code_simp
  note t = encrypt_decrypt_errors [where crypto = toy_crypto and parse = JSON_parse]
  have c1: "encrypt toy_crypto ''a1b2'' ''c3d4'' ''data'' [] no_options = Inl (Error ''Encryption secret is required'')"
    by (rule t [THEN conjunct1, rule_format, OF e, THEN conjunct1])
  have c2: "decrypt JSON_parse toy_crypto ''data'' [] = Inl (Error ''Encryption secret is required'')"
    by (rule t [THEN conjunct1, rule_format, OF e, THEN conjunct2])
  note iff = t [THEN conjunct2, THEN conjunct1, rule_format, OF n,
      where random_salt = "''a1b2''" and random_iv = "''c3d4''" and options = no_options]
  have c3: "encrypt toy_crypto ''a1b2'' ''c3d4'' ?lone ''secret'' no_options = Inl URIError"
    using iff [of ?lone URIError] dk ae by (simp add: o)
  have c4: "\<not> isl (encrypt toy_crypto ''a1b2'' ''c3d4'' ''data'' ''secret'' no_options)"
  proof
    assume "isl (encrypt toy_crypto ''a1b2'' ''c3d4'' ''data'' ''secret'' no_options)"
    then obtain err where "encrypt toy_crypto ''a1b2'' ''c3d4'' ''data'' ''secret'' no_options = Inl err"
      by (auto simp add: isl_def)
    with iff [of "''data''" err] dk ad show False by (simp add: o)
  qed
  have c5: \<open>decrypt JSON_parse toy_crypto ''{"salt":"a1b2","iv":"c3d4","ciphertext":"x","algorithm":"XSalsa20"}'' ''secret''
       = Inl (Error ''Failed to decrypt data. Check your secret key.'')\<close>
    by (rule t [THEN conjunct2, THEN conjunct2, THEN conjunct1, rule_format, OF conjI [OF n conjI [OF px ax]]])
  have c6: \<open>decrypt JSON_parse toy_crypto
         ''{"salt":"a1b2","iv":"c3d4","ciphertext":"other/a1b2:hello","algorithm":"AES-GCM"}'' ''secret''
       = Inl (Error ''Failed to decrypt data. Check your secret key.'')\<close>
    by (rule t [THEN conjunct2, THEN conjunct2, THEN conjunct2, rule_format,
          OF conjI [OF n conjI [OF pw conjI [OF aw conjI [OF dk' dw]]]]])
  show ?thesis
    using c1 c2 n dk ae c3 ad c4 px c5 pw c6 by blast
qed

text \<open>
  C8 as stated fails for a secret that is not empty: the plaintext that is an unpaired
  surrogate cannot be converted to bytes, the encryption throws a URIError, and so does
  \<open>encrypt\<close>.
\<close>

theorem encrypt_lone_surrogate_raises:
  "''secret'' \<noteq> []
   \<and> has_lone_surrogate [CHR 0xED, CHR 0xA0, CHR 0x80]
   \<and> encrypt toy_crypto ''a1b2'' ''c3d4'' [CHR 0xED, CHR 0xA0, CHR 0x80] ''secret'' no_options
       = Inl URIError"
  by code_simp

end
